theory Spec2Isabelle
  imports Main "HOL-Library.Sublist"
begin

section \<open>JSON values and the JavaScript operations the handlers apply to them\<close>

text \<open>
  Request bodies are JSON. Numbers are restricted to integers, which JavaScript's doubles
  represent exactly below \<open>2^53\<close>; fractional numbers and rounding are outside the model.
  An object is an association list in which every key occurs once.
\<close>

datatype json =
    JUndefined
  | JNull
  | JBool bool
  | JNum int
  | JStr string
  | JArr "json list"
  | JObj "(string \<times> json) list"

text \<open>
  What a \<^verbatim>\<open>try\<close> block of a handler can throw: a schema's rejection, a TypeError of
  the language, an error of the database, an error of bcrypt.
\<close>

datatype error = ZodError | TypeError | DbError | LibraryError

text \<open>\<^verbatim>\<open>const { k } = req.body\<close>: a missing key reads as \<^verbatim>\<open>undefined\<close>.\<close>

definition field :: "(string \<times> json) list \<Rightarrow> string \<Rightarrow> json" where
  "field obj k = (case map_of obj k of None \<Rightarrow> JUndefined | Some v \<Rightarrow> v)"

text \<open>
  \<^verbatim>\<open>item.k\<close>: reading a property of \<^verbatim>\<open>undefined\<close> or \<^verbatim>\<open>null\<close> throws a
  TypeError; primitives and arrays have none of the properties read here.
\<close>

fun getProp :: "json \<Rightarrow> string \<Rightarrow> error + json" where
  "getProp JUndefined k = Inl TypeError"
| "getProp JNull k = Inl TypeError"
| "getProp (JObj kvs) k = Inr (field kvs k)"
| "getProp v k = Inr JUndefined"

text \<open>
  \<^verbatim>\<open>for (const item of items)\<close>: arrays yield their elements, strings their
  characters, anything else is not iterable.
\<close>

fun iterate :: "json \<Rightarrow> error + json list" where
  "iterate (JArr xs) = Inr xs"
| "iterate (JStr s) = Inr (map (\<lambda>c. JStr [c]) s)"
| "iterate v = Inl TypeError"

text \<open>The truthiness test behind \<^verbatim>\<open>a || b\<close> and \<^verbatim>\<open>a ? b : c\<close>.\<close>

fun truthy :: "json \<Rightarrow> bool" where
  "truthy JUndefined = False"
| "truthy JNull = False"
| "truthy (JBool b) = b"
| "truthy (JNum n) = (n \<noteq> 0)"
| "truthy (JStr s) = (s \<noteq> [])"
| "truthy (JArr xs) = True"
| "truthy (JObj kvs) = True"

section \<open>Tables (shared/schema.ts)\<close>

text \<open>
  Integer columns hold \<open>int\<close>; decimal, varchar and timestamp columns hold the value
  that was inserted. A row type extends the type of the object that is inserted with the
  columns the database fills in (\<^verbatim>\<open>serial\<close> id, \<^verbatim>\<open>defaultNow()\<close>).
\<close>

record insert_drug =
  name :: string
  genericName :: "string option"
  brand :: "string option"
  categoryId :: json
  dosage :: json
  form :: json
  description :: json
  barcode :: "string option"
  requiresPrescription :: json
  isActive :: json

record drug = insert_drug +
  drug_id :: int

record insert_drug_batch =
  drugId :: int
  batchNumber :: json
  expiryDate :: json
  quantity :: int
  costPrice :: json
  sellingPrice :: json
  supplierId :: json

record drug_batch = insert_drug_batch +
  batch_id :: int
  batch_createdAt :: nat

record insert_sale =
  receiptNumber :: string
  customerName :: json
  customerPhone :: json
  userId :: int
  subtotal :: json
  taxAmount :: json
  discountAmount :: json
  totalAmount :: json
  paymentMethod :: json
  status :: json

record sale = insert_sale +
  sale_id :: int
  customerId :: json
  sale_createdAt :: nat

record insert_sale_item =
  saleId :: int
  drugBatchId :: int
  itemQuantity :: int
  unitPrice :: json
  totalPrice :: json

record sale_item = insert_sale_item +
  sale_item_id :: int

record insert_purchase =
  purchaseNumber :: string
  purchaseSupplierId :: json
  purchaseUserId :: int
  purchaseTotalAmount :: json
  purchaseStatus :: json

record purchase = insert_purchase +
  purchase_id :: int
  orderDate :: nat
  receivedDate :: json

record insert_purchase_item =
  purchaseId :: int
  purchaseDrugId :: json
  purchaseQuantity :: json
  unitCost :: json
  totalCost :: json
  purchaseBatchNumber :: json
  purchaseExpiryDate :: json

record purchase_item = insert_purchase_item +
  purchase_item_id :: int

text \<open>\<^verbatim>\<open>Partial<InsertDrugBatch>\<close>: the columns an update sets.\<close>

record drug_batch_patch =
  set_drugId :: "int option"
  set_batchNumber :: "json option"
  set_expiryDate :: "json option"
  set_quantity :: "int option"
  set_costPrice :: "json option"
  set_sellingPrice :: "json option"
  set_supplierId :: "json option"

definition only_quantity :: "int \<Rightarrow> drug_batch_patch" where
  "only_quantity n =
     \<lparr>set_drugId = None, set_batchNumber = None, set_expiryDate = None,
      set_quantity = Some n, set_costPrice = None, set_sellingPrice = None,
      set_supplierId = None\<rparr>"

definition apply_patch :: "drug_batch_patch \<Rightarrow> drug_batch \<Rightarrow> drug_batch" where
  "apply_patch p b =
     b\<lparr>drugId := (case set_drugId p of None \<Rightarrow> drugId b | Some v \<Rightarrow> v),
       batchNumber := (case set_batchNumber p of None \<Rightarrow> batchNumber b | Some v \<Rightarrow> v),
       expiryDate := (case set_expiryDate p of None \<Rightarrow> expiryDate b | Some v \<Rightarrow> v),
       quantity := (case set_quantity p of None \<Rightarrow> quantity b | Some v \<Rightarrow> v),
       costPrice := (case set_costPrice p of None \<Rightarrow> costPrice b | Some v \<Rightarrow> v),
       sellingPrice := (case set_sellingPrice p of None \<Rightarrow> sellingPrice b | Some v \<Rightarrow> v),
       supplierId := (case set_supplierId p of None \<Rightarrow> supplierId b | Some v \<Rightarrow> v)\<rparr>"

text \<open>
  \<^verbatim>\<open>Partial<InsertDrug>\<close>. \<^verbatim>\<open>None\<close> and \<^verbatim>\<open>JUndefined\<close> leave a column as
  it is; a nullable varchar column can be set to null (\<^verbatim>\<open>Some None\<close>).
\<close>

record drug_patch =
  set_name :: "string option"
  set_genericName :: "string option option"
  set_brand :: "string option option"
  set_categoryId :: json
  set_dosage :: json
  set_form :: json
  set_description :: json
  set_barcode :: "string option option"
  set_requiresPrescription :: json
  set_isActive :: json

definition orKeep :: "json \<Rightarrow> json \<Rightarrow> json" where
  "orKeep new old = (if new = JUndefined then old else new)"

definition apply_drug_patch :: "drug_patch \<Rightarrow> drug \<Rightarrow> drug" where
  "apply_drug_patch p d =
     d\<lparr>name := (case set_name p of None \<Rightarrow> name d | Some v \<Rightarrow> v),
       genericName := (case set_genericName p of None \<Rightarrow> genericName d | Some v \<Rightarrow> v),
       brand := (case set_brand p of None \<Rightarrow> brand d | Some v \<Rightarrow> v),
       categoryId := orKeep (set_categoryId p) (categoryId d),
       dosage := orKeep (set_dosage p) (dosage d),
       form := orKeep (set_form p) (form d),
       description := orKeep (set_description p) (description d),
       barcode := (case set_barcode p of None \<Rightarrow> barcode d | Some v \<Rightarrow> v),
       requiresPrescription := orKeep (set_requiresPrescription p) (requiresPrescription d),
       isActive := orKeep (set_isActive p) (isActive d)\<rparr>"

text \<open>
  The database: one list of rows per table, in insertion order, and the next value of
  each \<^verbatim>\<open>serial\<close> sequence. The rows of \<^verbatim>\<open>categories\<close>,
  \<^verbatim>\<open>suppliers\<close>, \<^verbatim>\<open>customers\<close> and \<^verbatim>\<open>settings\<close> are kept as an id
  with the inserted object; of a user the columns the handlers read are named.
\<close>

record user_row =
  usr_id :: int
  usr_username :: string
  usr_password :: string
  usr_role :: string
  usr_profile :: "(string \<times> json) list"

type_synonym row = "int \<times> (string \<times> json) list"

record store =
  users :: "user_row list"
  categories :: "row list"
  suppliers :: "row list"
  customers :: "row list"
  drugs :: "drug list"
  drugBatches :: "drug_batch list"
  sales :: "sale list"
  saleItems :: "sale_item list"
  purchases :: "purchase list"
  purchaseItems :: "purchase_item list"
  settings :: "row list"
  nextUserId :: int
  nextCategoryId :: int
  nextSupplierId :: int
  nextCustomerId :: int
  nextDrugId :: int
  nextBatchId :: int
  nextSaleId :: int
  nextSaleItemId :: int
  nextPurchaseId :: int
  nextPurchaseItemId :: int
  nextSettingId :: int

section \<open>Schemas (shared/schema.ts)\<close>

text \<open>
  \<^verbatim>\<open>createInsertSchema\<close> of drizzle-zod builds a schema from a table. An integer
  column asks for a number, a varchar column of length \<open>n\<close> for a string of at most
  \<open>n\<close> characters, a text column and a decimal column for a string, a boolean column
  for a boolean, a timestamp column for a \<^verbatim>\<open>Date\<close>. A request body is JSON and
  holds no \<^verbatim>\<open>Date\<close>, so nothing in it passes for a timestamp.
\<close>

datatype zod = ZNumber | ZString | ZVarchar nat | ZBoolean | ZDate

fun accepts :: "zod \<Rightarrow> json \<Rightarrow> bool" where
  "accepts ZNumber (JNum n) = True"
| "accepts ZString (JStr s) = True"
| "accepts (ZVarchar n) (JStr s) = (length s \<le> n)"
| "accepts ZBoolean (JBool b) = True"
| "accepts z v = False"

text \<open>
  A \<^verbatim>\<open>notNull()\<close> column without a default is required; a \<^verbatim>\<open>notNull()\<close> column
  with a default may be missing; every other column may be missing or null.
\<close>

definition required :: "zod \<Rightarrow> json \<Rightarrow> bool" where
  "required z v = accepts z v"

definition missingOr :: "zod \<Rightarrow> json \<Rightarrow> bool" where
  "missingOr z v = (v = JUndefined \<or> accepts z v)"

definition nullish :: "zod \<Rightarrow> json \<Rightarrow> bool" where
  "nullish z v = (v = JUndefined \<or> v = JNull \<or> accepts z v)"

definition within :: "nat \<Rightarrow> string option \<Rightarrow> bool" where
  "within n col = (case col of None \<Rightarrow> True | Some s \<Rightarrow> length s \<le> n)"

text \<open>
  The schemas of the tables whose rows are records. The integer columns are numbers by
  the type of the record; the parse functions of the handlers see to that.
\<close>

definition insertDrugSchema :: "insert_drug \<Rightarrow> bool" where
  "insertDrugSchema d =
     (length (name d) \<le> 100 \<and> within 100 (genericName d) \<and> within 100 (brand d)
      \<and> nullish ZNumber (categoryId d) \<and> nullish (ZVarchar 50) (dosage d)
      \<and> nullish (ZVarchar 50) (form d) \<and> nullish ZString (description d)
      \<and> within 50 (barcode d) \<and> nullish ZBoolean (requiresPrescription d)
      \<and> nullish ZBoolean (isActive d))"

definition partialDrugSchema :: "drug_patch \<Rightarrow> bool" where
  "partialDrugSchema p =
     (within 100 (set_name p)
      \<and> (case set_genericName p of None \<Rightarrow> True | Some v \<Rightarrow> within 100 v)
      \<and> (case set_brand p of None \<Rightarrow> True | Some v \<Rightarrow> within 100 v)
      \<and> nullish ZNumber (set_categoryId p) \<and> nullish (ZVarchar 50) (set_dosage p)
      \<and> nullish (ZVarchar 50) (set_form p) \<and> nullish ZString (set_description p)
      \<and> (case set_barcode p of None \<Rightarrow> True | Some v \<Rightarrow> within 50 v)
      \<and> nullish ZBoolean (set_requiresPrescription p)
      \<and> nullish ZBoolean (set_isActive p))"

definition insertDrugBatchSchema :: "insert_drug_batch \<Rightarrow> bool" where
  "insertDrugBatchSchema b =
     (required (ZVarchar 50) (batchNumber b) \<and> required ZDate (expiryDate b)
      \<and> required ZString (costPrice b) \<and> required ZString (sellingPrice b)
      \<and> nullish ZNumber (supplierId b))"

definition insertSaleSchema :: "insert_sale \<Rightarrow> bool" where
  "insertSaleSchema s =
     (length (receiptNumber s) \<le> 50 \<and> nullish (ZVarchar 255) (customerName s)
      \<and> nullish (ZVarchar 20) (customerPhone s) \<and> required ZString (subtotal s)
      \<and> required ZString (taxAmount s) \<and> nullish ZString (discountAmount s)
      \<and> required ZString (totalAmount s) \<and> required (ZVarchar 20) (paymentMethod s)
      \<and> nullish (ZVarchar 20) (status s))"

definition insertSaleItemSchema :: "insert_sale_item \<Rightarrow> bool" where
  "insertSaleItemSchema d =
     (required ZString (unitPrice d) \<and> required ZString (totalPrice d))"

definition insertPurchaseSchema :: "insert_purchase \<Rightarrow> bool" where
  "insertPurchaseSchema p =
     (length (purchaseNumber p) \<le> 50 \<and> required ZNumber (purchaseSupplierId p)
      \<and> required ZString (purchaseTotalAmount p)
      \<and> nullish (ZVarchar 20) (purchaseStatus p))"

definition insertPurchaseItemSchema :: "insert_purchase_item \<Rightarrow> bool" where
  "insertPurchaseItemSchema d =
     (required ZNumber (purchaseDrugId d) \<and> required ZNumber (purchaseQuantity d)
      \<and> required ZString (unitCost d) \<and> required ZString (totalCost d)
      \<and> required (ZVarchar 50) (purchaseBatchNumber d)
      \<and> required ZDate (purchaseExpiryDate d))"

text \<open>
  The schemas of the tables whose rows are kept as objects: a check for each key. A parse
  that succeeds returns the known keys that are present; \<^verbatim>\<open>partial()\<close> lets every
  key be missing.
\<close>

type_synonym shape = "(string \<times> (json \<Rightarrow> bool)) list"

definition conforms :: "shape \<Rightarrow> (string \<times> json) list \<Rightarrow> bool" where
  "conforms sh obj = list_all (\<lambda>kc. snd kc (field obj (fst kc))) sh"

definition parsed :: "shape \<Rightarrow> (string \<times> json) list \<Rightarrow> (string \<times> json) list" where
  "parsed sh obj =
     map (\<lambda>kc. (fst kc, field obj (fst kc)))
       (filter (\<lambda>kc. field obj (fst kc) \<noteq> JUndefined) sh)"

definition partial :: "shape \<Rightarrow> shape" where
  "partial sh = map (\<lambda>kc. (fst kc, \<lambda>v. v = JUndefined \<or> snd kc v)) sh"

definition insertUserSchema :: shape where
  "insertUserSchema =
     [(''username'', required (ZVarchar 50)), (''email'', nullish (ZVarchar 100)),
      (''password'', required ZString), (''role'', missingOr (ZVarchar 20)),
      (''firstName'', nullish (ZVarchar 50)), (''lastName'', nullish (ZVarchar 50)),
      (''profileImageUrl'', nullish ZString), (''isActive'', nullish ZBoolean)]"

definition insertCategorySchema :: shape where
  "insertCategorySchema =
     [(''name'', required (ZVarchar 100)), (''description'', nullish ZString)]"

definition insertSupplierSchema :: shape where
  "insertSupplierSchema =
     [(''name'', required (ZVarchar 100)), (''contactPerson'', nullish (ZVarchar 100)),
      (''email'', nullish (ZVarchar 100)), (''phone'', nullish (ZVarchar 20)),
      (''address'', nullish ZString), (''isActive'', nullish ZBoolean)]"

definition insertCustomerSchema :: shape where
  "insertCustomerSchema =
     [(''name'', required (ZVarchar 100)), (''email'', nullish (ZVarchar 100)),
      (''phone'', nullish (ZVarchar 20)), (''address'', nullish ZString),
      (''dateOfBirth'', nullish ZDate)]"

section \<open>What lies outside the repository\<close>

text \<open>\<^verbatim>\<open>req.user\<close>: the payload of a verified token.\<close>

record user =
  user_id :: int
  username :: string
  role :: string

text \<open>The calls the storage layer sends to the database.\<close>

datatype table =
    Users | Categories | Suppliers | Customers | Drugs | DrugBatches
  | Sales | SaleItems | Purchases | PurchaseItems | Settings

datatype db_call =
    Select table
  | SelectDrugBatch int
  | UpdateDrugBatch int drug_batch_patch
  | InsertDrugBatch insert_drug_batch
  | InsertSale insert_sale
  | InsertSaleItem insert_sale_item
  | InsertPurchase insert_purchase
  | InsertPurchaseItem insert_purchase_item
  | InsertUser string string json "(string \<times> json) list"
  | UpdateUserPassword int string
  | InsertDrug insert_drug
  | UpdateDrug "int option" drug_patch
  | InsertRow table "(string \<times> json) list"
  | UpdateRow table "int option" "(string \<times> json) list"
  | DeleteRow table "int option"
  | UpsertSetting string json

text \<open>
  The database is PostgreSQL behind drizzle, tokens and password hashes come from
  jsonwebtoken and bcrypt, and operations on values that are not numbers go through
  JavaScript's coercions. None of these is code of the repository, so they are parameters:
  on which calls the database throws for a reason other than the constraints the tables
  declare (a value it cannot store, a lost connection), the text a decimal column keeps for
  an inserted value, the text a value that is not a string is compared as against a varchar
  column (\<^verbatim>\<open>None\<close>: as nothing), what \<^verbatim>\<open>a - b\<close> and \<^verbatim>\<open>a < n\<close> give when
  \<open>a\<close> is not a number, which tokens verify. \<^verbatim>\<open>None\<close> from \<open>bcryptCompare\<close> and
  \<open>bcryptHash\<close> is a thrown error.
\<close>

record env =
  storageFails :: "store \<Rightarrow> db_call \<Rightarrow> bool"
  numeric :: "json \<Rightarrow> json"
  boundText :: "json \<Rightarrow> string option"
  minusCoerced :: "json \<Rightarrow> json \<Rightarrow> json"
  lessCoerced :: "json \<Rightarrow> int \<Rightarrow> bool"
  jwtVerify :: "string \<Rightarrow> user option"
  bcryptCompare :: "json \<Rightarrow> string \<Rightarrow> bool option"
  bcryptHash :: "json \<Rightarrow> string option"

text \<open>The wall clock: \<^verbatim>\<open>new Date().getFullYear()\<close> and \<^verbatim>\<open>Date.now()\<close>.\<close>

record clock =
  fullYear :: nat
  now :: nat

definition minus_js :: "env \<Rightarrow> json \<Rightarrow> json \<Rightarrow> json" where
  "minus_js e a b =
     (case (a, b) of
        (JNum x, JNum y) \<Rightarrow> JNum (x - y)
      | _ \<Rightarrow> minusCoerced e a b)"

text \<open>A number inside a template string.\<close>

fun showNat :: "nat \<Rightarrow> string" where
  "showNat n =
     (if n < 10 then [char_of (48 + n)]
      else showNat (n div 10) @ [char_of (48 + n mod 10)])"

declare showNat.simps [simp del]

text \<open>\<^verbatim>\<open>a < n\<close> for a number \<open>n\<close>; \<^verbatim>\<open>undefined\<close> becomes \<^verbatim>\<open>NaN\<close>, which is below nothing.\<close>

definition less_js :: "env \<Rightarrow> json \<Rightarrow> int \<Rightarrow> bool" where
  "less_js e a n =
     (case a of
        JNum x \<Rightarrow> x < n
      | JUndefined \<Rightarrow> False
      | _ \<Rightarrow> lessCoerced e a n)"

text \<open>
  \<^verbatim>\<open>parseInt(s)\<close>: leading white space is skipped, a sign is read, then the longest
  run of digits, hexadecimal ones after \<^verbatim>\<open>0x\<close>; with no digit the result is
  \<^verbatim>\<open>NaN\<close>, here \<^verbatim>\<open>None\<close>.
\<close>

definition digitOf :: "int \<Rightarrow> char \<Rightarrow> int option" where
  "digitOf radix c =
     (case map_of (zip ''0123456789abcdefABCDEF''
                       [0, 1, 2, 3, 4, 5, 6, 7, 8, 9, 10, 11, 12, 13, 14, 15,
                        10, 11, 12, 13, 14, 15]) c of
        None \<Rightarrow> None
      | Some d \<Rightarrow> (if d < radix then Some d else None))"

fun digitsValue :: "int \<Rightarrow> string \<Rightarrow> int \<Rightarrow> bool \<Rightarrow> int option" where
  "digitsValue radix [] acc seen = (if seen then Some acc else None)"
| "digitsValue radix (c # cs) acc seen =
     (case digitOf radix c of
        None \<Rightarrow> (if seen then Some acc else None)
      | Some d \<Rightarrow> digitsValue radix cs (acc * radix + d) True)"

definition unsignedInt :: "string \<Rightarrow> int option" where
  "unsignedInt s =
     (case s of
        a # b # r \<Rightarrow>
          (if a = CHR ''0'' \<and> (b = CHR ''x'' \<or> b = CHR ''X'') then digitsValue 16 r 0 False
           else digitsValue 10 s 0 False)
      | _ \<Rightarrow> digitsValue 10 s 0 False)"

definition parseInt :: "string \<Rightarrow> int option" where
  "parseInt s =
     (case dropWhile (\<lambda>c. c \<in> set [CHR '' '', CHR 0x09, CHR 0x0A, CHR 0x0B, CHR 0x0C, CHR 0x0D]) s of
        [] \<Rightarrow> None
      | c # r \<Rightarrow>
          (if c = CHR ''-'' then map_option uminus (unsignedInt r)
           else if c = CHR ''+'' then unsignedInt r
           else unsignedInt (c # r)))"

section \<open>Constraints the tables declare (shared/schema.ts)\<close>

text \<open>
  Of what the tables declare, the database enforces here the foreign keys, the unique
  columns, the range of the integer columns of the inventory, sale and purchase tables, and
  the restriction that a referenced drug or category cannot be deleted. A statement that
  breaks one of them throws.
\<close>

definition int32 :: "int \<Rightarrow> bool" where
  "int32 n = (- 2147483648 \<le> n \<and> n \<le> 2147483647)"

text \<open>A nullable foreign key column: null, or the id of a row.\<close>

fun refersTo :: "int list \<Rightarrow> json \<Rightarrow> bool" where
  "refersTo ids (JNum n) = (n \<in> set ids)"
| "refersTo ids JNull = True"
| "refersTo ids JUndefined = True"
| "refersTo ids v = False"

text \<open>A foreign key column that is not nullable.\<close>

fun mustReferTo :: "int list \<Rightarrow> json \<Rightarrow> bool" where
  "mustReferTo ids (JNum n) = (n \<in> set ids)"
| "mustReferTo ids v = False"

definition violates :: "store \<Rightarrow> db_call \<Rightarrow> bool" where
  "violates st c =
     (case c of
        InsertUser n pw r profile \<Rightarrow>
          n \<in> set (map usr_username (users st))
          \<or> (case field profile ''email'' of
                JStr a \<Rightarrow> JStr a \<in> set (map (\<lambda>u. field (usr_profile u) ''email'') (users st))
              | _ \<Rightarrow> False)
      | InsertRow t obj \<Rightarrow>
          t = Categories
          \<and> field obj ''name'' \<in> set (map (\<lambda>r. field (snd r) ''name'') (categories st))
      | DeleteRow t i \<Rightarrow>
          (case i of
             None \<Rightarrow> False
           | Some n \<Rightarrow>
               (t = Drugs
                \<and> (n \<in> set (map drugId (drugBatches st))
                    \<or> JNum n \<in> set (map purchaseDrugId (purchaseItems st))))
               \<or> (t = Categories \<and> JNum n \<in> set (map categoryId (drugs st))))
      | InsertDrug d \<Rightarrow>
          \<not> refersTo (map fst (categories st)) (categoryId d)
          \<or> (barcode d \<noteq> None \<and> barcode d \<in> set (map barcode (drugs st)))
      | UpdateDrug i p \<Rightarrow>
          \<not> refersTo (map fst (categories st)) (set_categoryId p)
      | InsertDrugBatch b \<Rightarrow>
          drugId b \<notin> set (map drug_id (drugs st))
          \<or> \<not> refersTo (map fst (suppliers st)) (supplierId b)
          \<or> \<not> int32 (quantity b)
      | UpdateDrugBatch i p \<Rightarrow>
          (case set_quantity p of None \<Rightarrow> False | Some q \<Rightarrow> \<not> int32 q)
          \<or> (case set_drugId p of
                None \<Rightarrow> False
              | Some d \<Rightarrow> d \<notin> set (map drug_id (drugs st)))
          \<or> (case set_supplierId p of
                None \<Rightarrow> False
              | Some v \<Rightarrow> \<not> refersTo (map fst (suppliers st)) v)
      | InsertSale s \<Rightarrow>
          userId s \<notin> set (map usr_id (users st))
          \<or> receiptNumber s \<in> set (map receiptNumber (sales st))
      | InsertSaleItem d \<Rightarrow>
          saleId d \<notin> set (map sale_id (sales st))
          \<or> drugBatchId d \<notin> set (map batch_id (drugBatches st))
          \<or> \<not> int32 (itemQuantity d)
      | InsertPurchase p \<Rightarrow>
          \<not> mustReferTo (map fst (suppliers st)) (purchaseSupplierId p)
          \<or> purchaseUserId p \<notin> set (map usr_id (users st))
          \<or> purchaseNumber p \<in> set (map purchaseNumber (purchases st))
      | InsertPurchaseItem d \<Rightarrow>
          purchaseId d \<notin> set (map purchase_id (purchases st))
          \<or> \<not> mustReferTo (map drug_id (drugs st)) (purchaseDrugId d)
          \<or> (case purchaseQuantity d of JNum q \<Rightarrow> \<not> int32 q | _ \<Rightarrow> True)
      | _ \<Rightarrow> False)"

text \<open>A statement the database does not carry out.\<close>

definition rejects :: "env \<Rightarrow> store \<Rightarrow> db_call \<Rightarrow> bool" where
  "rejects e st c = (violates st c \<or> storageFails e st c)"

section \<open>Storage layer (server/storage.ts)\<close>

text \<open>
  Every method is one statement sent to the database. When the database throws, the
  method throws and the tables are as they were; otherwise the statement takes effect at
  once: no method and no handler opens a transaction. A row keeps in its decimal columns
  the text the database makes of the inserted value.
\<close>

definition getDrugBatch :: "env \<Rightarrow> int \<Rightarrow> store \<Rightarrow> error + drug_batch option" where
  "getDrugBatch e i st =
     (if rejects e st (SelectDrugBatch i) then Inl DbError
      else Inr (find (\<lambda>b. batch_id b = i) (drugBatches st)))"

definition updateDrugBatch ::
  "env \<Rightarrow> int \<Rightarrow> drug_batch_patch \<Rightarrow> store \<Rightarrow> (error + drug_batch option) \<times> store" where
  "updateDrugBatch e i p st =
     (if rejects e st (UpdateDrugBatch i p) then (Inl DbError, st)
      else
        (let stored = p\<lparr>set_costPrice := map_option (numeric e) (set_costPrice p),
                          set_sellingPrice := map_option (numeric e) (set_sellingPrice p)\<rparr>;
             rows = map (\<lambda>b. if batch_id b = i then apply_patch stored b else b)
                      (drugBatches st)
         in (Inr (find (\<lambda>b. batch_id b = i) rows), st\<lparr>drugBatches := rows\<rparr>)))"

definition createDrugBatch ::
  "env \<Rightarrow> clock \<Rightarrow> insert_drug_batch \<Rightarrow> store \<Rightarrow> (error + drug_batch) \<times> store" where
  "createDrugBatch e clk b st =
     (if rejects e st (InsertDrugBatch b) then (Inl DbError, st)
      else
        (let row = \<lparr>drugId = drugId b, batchNumber = batchNumber b,
                    expiryDate = expiryDate b, quantity = quantity b,
                    costPrice = numeric e (costPrice b),
                    sellingPrice = numeric e (sellingPrice b),
                    supplierId = supplierId b,
                    batch_id = nextBatchId st, batch_createdAt = now clk\<rparr>
         in (Inr row,
             st\<lparr>drugBatches := drugBatches st @ [row], nextBatchId := nextBatchId st + 1\<rparr>)))"

text \<open>
  \<^verbatim>\<open>discount_amount\<close> and \<^verbatim>\<open>status\<close> have column defaults, which the database
  takes when the inserted object leaves them undefined; \<^verbatim>\<open>customer_id\<close> is never
  given and stays null.
\<close>

definition createSale :: "env \<Rightarrow> clock \<Rightarrow> insert_sale \<Rightarrow> store \<Rightarrow> (error + sale) \<times> store" where
  "createSale e clk s st =
     (if rejects e st (InsertSale s) then (Inl DbError, st)
      else
        (let row = \<lparr>receiptNumber = receiptNumber s, customerName = customerName s,
                    customerPhone = customerPhone s, userId = userId s,
                    subtotal = numeric e (subtotal s), taxAmount = numeric e (taxAmount s),
                    discountAmount =
                      numeric e
                        (if discountAmount s = JUndefined then JStr ''0''
                         else discountAmount s),
                    totalAmount = numeric e (totalAmount s),
                    paymentMethod = paymentMethod s,
                    status = (if status s = JUndefined then JStr ''completed'' else status s),
                    sale_id = nextSaleId st, customerId = JNull,
                    sale_createdAt = now clk\<rparr>
         in (Inr row, st\<lparr>sales := sales st @ [row], nextSaleId := nextSaleId st + 1\<rparr>)))"

definition createSaleItem ::
  "env \<Rightarrow> insert_sale_item \<Rightarrow> store \<Rightarrow> (error + sale_item) \<times> store" where
  "createSaleItem e d st =
     (if rejects e st (InsertSaleItem d) then (Inl DbError, st)
      else
        (let row = \<lparr>saleId = saleId d, drugBatchId = drugBatchId d,
                    itemQuantity = itemQuantity d, unitPrice = numeric e (unitPrice d),
                    totalPrice = numeric e (totalPrice d),
                    sale_item_id = nextSaleItemId st\<rparr>
         in (Inr row,
             st\<lparr>saleItems := saleItems st @ [row],
                nextSaleItemId := nextSaleItemId st + 1\<rparr>)))"

definition createPurchase ::
  "env \<Rightarrow> clock \<Rightarrow> insert_purchase \<Rightarrow> store \<Rightarrow> (error + purchase) \<times> store" where
  "createPurchase e clk p st =
     (if rejects e st (InsertPurchase p) then (Inl DbError, st)
      else
        (let row = \<lparr>purchaseNumber = purchaseNumber p,
                    purchaseSupplierId = purchaseSupplierId p,
                    purchaseUserId = purchaseUserId p,
                    purchaseTotalAmount = numeric e (purchaseTotalAmount p),
                    purchaseStatus =
                      (if purchaseStatus p = JUndefined then JStr ''pending''
                       else purchaseStatus p),
                    purchase_id = nextPurchaseId st, orderDate = now clk,
                    receivedDate = JNull\<rparr>
         in (Inr row,
             st\<lparr>purchases := purchases st @ [row],
                nextPurchaseId := nextPurchaseId st + 1\<rparr>)))"

definition createPurchaseItem ::
  "env \<Rightarrow> insert_purchase_item \<Rightarrow> store \<Rightarrow> (error + purchase_item) \<times> store" where
  "createPurchaseItem e d st =
     (if rejects e st (InsertPurchaseItem d) then (Inl DbError, st)
      else
        (let row = \<lparr>purchaseId = purchaseId d, purchaseDrugId = purchaseDrugId d,
                    purchaseQuantity = purchaseQuantity d,
                    unitCost = numeric e (unitCost d),
                    totalCost = numeric e (totalCost d),
                    purchaseBatchNumber = purchaseBatchNumber d,
                    purchaseExpiryDate = purchaseExpiryDate d,
                    purchase_item_id = nextPurchaseItemId st\<rparr>
         in (Inr row,
             st\<lparr>purchaseItems := purchaseItems st @ [row],
                nextPurchaseItemId := nextPurchaseItemId st + 1\<rparr>)))"

text \<open>
  The list and aggregate queries only read. What they return is not modelled, only whether
  the database answers.
\<close>

definition readTable :: "env \<Rightarrow> table \<Rightarrow> store \<Rightarrow> error + unit" where
  "readTable e t st = (if rejects e st (Select t) then Inl DbError else Inr ())"

definition getUser :: "env \<Rightarrow> int \<Rightarrow> store \<Rightarrow> error + user_row option" where
  "getUser e i st =
     (if rejects e st (Select Users) then Inl DbError
      else Inr (find (\<lambda>u. usr_id u = i) (users st)))"

definition getUserByUsername :: "env \<Rightarrow> json \<Rightarrow> store \<Rightarrow> error + user_row option" where
  "getUserByUsername e n st =
     (if rejects e st (Select Users) then Inl DbError
      else
        (case n of
           JStr s \<Rightarrow> Inr (find (\<lambda>u. usr_username u = s) (users st))
         | _ \<Rightarrow>
             (case boundText e n of
                None \<Rightarrow> Inr None
              | Some s \<Rightarrow> Inr (find (\<lambda>u. usr_username u = s) (users st)))))"

definition createUser ::
  "env \<Rightarrow> string \<Rightarrow> string \<Rightarrow> json \<Rightarrow> (string \<times> json) list \<Rightarrow> store \<Rightarrow> (error + user_row) \<times> store" where
  "createUser e n pw r profile st =
     (if rejects e st (InsertUser n pw r profile) then (Inl DbError, st)
      else
        (let row = \<lparr>usr_id = nextUserId st, usr_username = n, usr_password = pw,
                    usr_role = (case r of JStr x \<Rightarrow> x | _ \<Rightarrow> ''cashier''),
                    usr_profile = profile\<rparr>
         in (Inr row, st\<lparr>users := users st @ [row], nextUserId := nextUserId st + 1\<rparr>)))"

definition updateUser :: "env \<Rightarrow> int \<Rightarrow> string \<Rightarrow> store \<Rightarrow> (error + unit) \<times> store" where
  "updateUser e i pw st =
     (if rejects e st (UpdateUserPassword i pw) then (Inl DbError, st)
      else
        (Inr (),
         st\<lparr>users := map (\<lambda>u. if usr_id u = i then u\<lparr>usr_password := pw\<rparr> else u) (users st)\<rparr>))"

text \<open>\<^verbatim>\<open>set(obj)\<close> on a row kept as an object: the given keys replace the old ones.\<close>

definition setColumns :: "(string \<times> json) list \<Rightarrow> (string \<times> json) list \<Rightarrow> (string \<times> json) list" where
  "setColumns new old = new @ filter (\<lambda>kv. fst kv \<notin> fst ` set new) old"

definition updateRows :: "int \<Rightarrow> (string \<times> json) list \<Rightarrow> row list \<Rightarrow> row list" where
  "updateRows i new rows = map (\<lambda>r. if fst r = i then (fst r, setColumns new (snd r)) else r) rows"

definition createCategory :: "env \<Rightarrow> (string \<times> json) list \<Rightarrow> store \<Rightarrow> (error + row) \<times> store" where
  "createCategory e c st =
     (if rejects e st (InsertRow Categories c) then (Inl DbError, st)
      else
        (Inr (nextCategoryId st, c),
         st\<lparr>categories := categories st @ [(nextCategoryId st, c)],
            nextCategoryId := nextCategoryId st + 1\<rparr>))"

definition updateCategory ::
  "env \<Rightarrow> int option \<Rightarrow> (string \<times> json) list \<Rightarrow> store \<Rightarrow> (error + unit) \<times> store" where
  "updateCategory e i c st =
     (if c = [] then (Inl LibraryError, st)
      else if rejects e st (UpdateRow Categories i c) then (Inl DbError, st)
      else
        (case i of
           None \<Rightarrow> (Inl DbError, st)
         | Some n \<Rightarrow> (Inr (), st\<lparr>categories := updateRows n c (categories st)\<rparr>)))"

definition deleteCategory :: "env \<Rightarrow> int option \<Rightarrow> store \<Rightarrow> (error + unit) \<times> store" where
  "deleteCategory e i st =
     (if rejects e st (DeleteRow Categories i) then (Inl DbError, st)
      else
        (case i of
           None \<Rightarrow> (Inl DbError, st)
         | Some n \<Rightarrow> (Inr (), st\<lparr>categories := filter (\<lambda>r. fst r \<noteq> n) (categories st)\<rparr>)))"

definition createSupplier :: "env \<Rightarrow> (string \<times> json) list \<Rightarrow> store \<Rightarrow> (error + row) \<times> store" where
  "createSupplier e c st =
     (if rejects e st (InsertRow Suppliers c) then (Inl DbError, st)
      else
        (Inr (nextSupplierId st, c),
         st\<lparr>suppliers := suppliers st @ [(nextSupplierId st, c)],
            nextSupplierId := nextSupplierId st + 1\<rparr>))"

definition createCustomer :: "env \<Rightarrow> (string \<times> json) list \<Rightarrow> store \<Rightarrow> (error + row) \<times> store" where
  "createCustomer e c st =
     (if rejects e st (InsertRow Customers c) then (Inl DbError, st)
      else
        (Inr (nextCustomerId st, c),
         st\<lparr>customers := customers st @ [(nextCustomerId st, c)],
            nextCustomerId := nextCustomerId st + 1\<rparr>))"

text \<open>
  \<^verbatim>\<open>onConflictDoUpdate\<close> on the unique \<^verbatim>\<open>key\<close> column; the insert that meets
  the conflict has taken a value of the sequence all the same.
\<close>

definition setSetting :: "env \<Rightarrow> string \<Rightarrow> json \<Rightarrow> store \<Rightarrow> (error + unit) \<times> store" where
  "setSetting e k v st =
     (if rejects e st (UpsertSetting k v) then (Inl DbError, st)
      else if \<exists>r \<in> set (settings st). field (snd r) ''key'' = JStr k
      then
        (Inr (),
         st\<lparr>settings :=
              map (\<lambda>r. if field (snd r) ''key'' = JStr k
                        then (fst r, setColumns [(''value'', v)] (snd r)) else r)
                  (settings st),
            nextSettingId := nextSettingId st + 1\<rparr>)
      else
        (Inr (),
         st\<lparr>settings := settings st @ [(nextSettingId st, [(''key'', JStr k), (''value'', v)])],
            nextSettingId := nextSettingId st + 1\<rparr>))"

definition createDrug :: "env \<Rightarrow> insert_drug \<Rightarrow> store \<Rightarrow> (error + drug) \<times> store" where
  "createDrug e d st =
     (if rejects e st (InsertDrug d) then (Inl DbError, st)
      else
        (let row = \<lparr>name = name d, genericName = genericName d, brand = brand d,
                    categoryId = categoryId d, dosage = dosage d, form = form d,
                    description = description d, barcode = barcode d,
                    requiresPrescription =
                      (if requiresPrescription d = JUndefined then JBool False
                       else requiresPrescription d),
                    isActive = (if isActive d = JUndefined then JBool True else isActive d),
                    drug_id = nextDrugId st\<rparr>
         in (Inr row, st\<lparr>drugs := drugs st @ [row], nextDrugId := nextDrugId st + 1\<rparr>)))"

text \<open>
  \<^verbatim>\<open>set(obj)\<close> with no value to set throws before a statement is sent; so does the
  update of a category above.
\<close>

definition emptyPatch :: "drug_patch \<Rightarrow> bool" where
  "emptyPatch p =
     (set_name p = None \<and> set_genericName p = None \<and> set_brand p = None
      \<and> set_categoryId p = JUndefined \<and> set_dosage p = JUndefined
      \<and> set_form p = JUndefined \<and> set_description p = JUndefined
      \<and> set_barcode p = None \<and> set_requiresPrescription p = JUndefined
      \<and> set_isActive p = JUndefined)"

definition updateDrug :: "env \<Rightarrow> int option \<Rightarrow> drug_patch \<Rightarrow> store \<Rightarrow> (error + drug option) \<times> store" where
  "updateDrug e i p st =
     (if emptyPatch p then (Inl LibraryError, st)
      else if rejects e st (UpdateDrug i p) then (Inl DbError, st)
      else
        (case i of
           None \<Rightarrow> (Inl DbError, st)
         | Some n \<Rightarrow>
             (let rows = map (\<lambda>d. if drug_id d = n then apply_drug_patch p d else d) (drugs st)
              in (Inr (find (\<lambda>d. drug_id d = n) rows), st\<lparr>drugs := rows\<rparr>))))"

definition deleteDrug :: "env \<Rightarrow> int option \<Rightarrow> store \<Rightarrow> (error + unit) \<times> store" where
  "deleteDrug e i st =
     (if rejects e st (DeleteRow Drugs i) then (Inl DbError, st)
      else
        (case i of
           None \<Rightarrow> (Inl DbError, st)
         | Some n \<Rightarrow> (Inr (), st\<lparr>drugs := filter (\<lambda>d. drug_id d \<noteq> n) (drugs st)\<rparr>)))"

text \<open>
  The SQL operator \<^verbatim>\<open>LIKE\<close> as PostgreSQL evaluates it: \<^verbatim>\<open>%\<close> stands for any
  run of characters, \<^verbatim>\<open>_\<close> for any one character, a backslash takes the next
  pattern character literally, and every other character stands for itself, upper and
  lower case being different characters. The first argument is the pattern. PostgreSQL
  refuses a pattern that ends in a lone backslash; \<open>searchDrugs\<close> builds none, its
  patterns end in \<^verbatim>\<open>%\<close>.
\<close>

fun like :: "string \<Rightarrow> string \<Rightarrow> bool" where
  "like [] s = (s = [])"
| "like (p # ps) [] =
     (if p = CHR ''%'' then like ps [] else False)"
| "like (p # ps) (c # cs) =
     (if p = CHR ''%'' then like ps (c # cs) \<or> like (p # ps) cs
      else if p = CHR ''_'' then like ps cs
      else if p = CHR 0x5C then
        (case ps of [] \<Rightarrow> False | q # qs \<Rightarrow> c = q \<and> like qs cs)
      else c = p \<and> like ps cs)"

text \<open>A null column compared with \<^verbatim>\<open>LIKE\<close> is not a match.\<close>

definition likeColumn :: "string \<Rightarrow> string option \<Rightarrow> bool" where
  "likeColumn pat col = (case col of None \<Rightarrow> False | Some s \<Rightarrow> like pat s)"

definition searchDrugs :: "env \<Rightarrow> string \<Rightarrow> store \<Rightarrow> error + drug list" where
  "searchDrugs e q st =
     (if rejects e st (Select Drugs) then Inl DbError
      else
        Inr (filter (\<lambda>d. like (''%'' @ q @ ''%'') (name d)
                         \<or> likeColumn (''%'' @ q @ ''%'') (genericName d)
                         \<or> likeColumn (''%'' @ q @ ''%'') (brand d)
                         \<or> likeColumn (''%'' @ q @ ''%'') (barcode d))
                    (drugs st)))"

section \<open>Responses\<close>

record sale_view =
  view_sale :: sale
  view_items :: "sale_item list"
  view_amountReceived :: json
  view_change :: json

text \<open>\<open>Data\<close> is the JSON of a read that is not modelled.\<close>

datatype reply =
    SaleWithItems sale_view
  | PurchaseRow purchase
  | DrugRows "drug list"
  | DrugRow "drug option"
  | DrugBatchRow drug_batch
  | PlainRow row
  | Message string
  | Data
  | NoContent

record response =
  code :: nat
  payload :: reply

definition internalServerError :: response where
  "internalServerError = \<lparr>code = 500, payload = Message ''Internal server error''\<rparr>"

text \<open>The \<^verbatim>\<open>catch\<close> every handler ends with.\<close>

definition caught :: "(error + response) \<times> store \<Rightarrow> response \<times> store" where
  "caught r =
     (case r of
        (Inl err, st) \<Rightarrow> (internalServerError, st)
      | (Inr resp, st) \<Rightarrow> (resp, st))"

section \<open>POST /api/sales (server/routes.ts)\<close>

text \<open>
  \<^verbatim>\<open>insertSaleItemSchema.parse\<close>: \<^verbatim>\<open>drug_batch_id\<close> and \<^verbatim>\<open>quantity\<close> are
  \<^verbatim>\<open>integer(...).notNull()\<close> columns, for which the schema demands a number. A
  successful parse returns the fields as they were given, so the handler's later reads of
  \<^verbatim>\<open>item.drugBatchId\<close> and \<^verbatim>\<open>item.quantity\<close> are the parsed values.
\<close>

definition parseSaleItem ::
  "int \<Rightarrow> json \<Rightarrow> json \<Rightarrow> json \<Rightarrow> json \<Rightarrow> error + insert_sale_item" where
  "parseSaleItem sid b q up tp =
     (case (b, q) of
        (JNum b', JNum q') \<Rightarrow>
          (let d = \<lparr>saleId = sid, drugBatchId = b', itemQuantity = q',
                    unitPrice = up, totalPrice = tp\<rparr>
           in if insertSaleItemSchema d then Inr d else Inl ZodError)
      | _ \<Rightarrow> Inl ZodError)"

text \<open>The object literal handed to the schema reads four properties of the line.\<close>

definition lineData :: "int \<Rightarrow> json \<Rightarrow> error + insert_sale_item" where
  "lineData sid item =
     (case getProp item ''drugBatchId'' of
        Inl err \<Rightarrow> Inl err
      | Inr b \<Rightarrow>
          (case getProp item ''quantity'' of
             Inl err \<Rightarrow> Inl err
           | Inr q \<Rightarrow>
               (case getProp item ''unitPrice'' of
                  Inl err \<Rightarrow> Inl err
                | Inr up \<Rightarrow>
                    (case getProp item ''totalPrice'' of
                       Inl err \<Rightarrow> Inl err
                     | Inr tp \<Rightarrow> parseSaleItem sid b q up tp))))"

text \<open>
  One turn of the loop over the cart: validate the line, insert the sale item, read the
  batch and, if there is one, write back its quantity less the line's.
\<close>

definition saleLine :: "env \<Rightarrow> int \<Rightarrow> json \<Rightarrow> store \<Rightarrow> (error + sale_item) \<times> store" where
  "saleLine e sid item st =
     (case lineData sid item of
        Inl err \<Rightarrow> (Inl err, st)
      | Inr d \<Rightarrow>
          (case createSaleItem e d st of
             (Inl err, st1) \<Rightarrow> (Inl err, st1)
           | (Inr createdItem, st1) \<Rightarrow>
               (case getDrugBatch e (drugBatchId d) st1 of
                  Inl err \<Rightarrow> (Inl err, st1)
                | Inr None \<Rightarrow> (Inr createdItem, st1)
                | Inr (Some batch) \<Rightarrow>
                    (case updateDrugBatch e (drugBatchId d)
                            (only_quantity (quantity batch - itemQuantity d)) st1 of
                       (Inl err, st2) \<Rightarrow> (Inl err, st2)
                     | (Inr u, st2) \<Rightarrow> (Inr createdItem, st2)))))"

fun saleLines ::
  "env \<Rightarrow> int \<Rightarrow> json list \<Rightarrow> sale_item list \<Rightarrow> store \<Rightarrow> (error + sale_item list) \<times> store" where
  "saleLines e sid [] acc st = (Inr acc, st)"
| "saleLines e sid (item # rest) acc st =
     (case saleLine e sid item st of
        (Inl err, st1) \<Rightarrow> (Inl err, st1)
      | (Inr createdItem, st1) \<Rightarrow> saleLines e sid rest (acc @ [createdItem]) st1)"

definition saleCandidate :: "clock \<Rightarrow> user \<Rightarrow> (string \<times> json) list \<Rightarrow> insert_sale" where
  "saleCandidate clk usr body =
     \<lparr>receiptNumber = ''POS-'' @ showNat (fullYear clk) @ ''-'' @ showNat (now clk),
      customerName = field body ''customerName'',
      customerPhone = field body ''customerPhone'',
      userId = user_id usr,
      subtotal = field body ''subtotal'',
      taxAmount = field body ''taxAmount'',
      discountAmount = JNum 0,
      totalAmount = field body ''totalAmount'',
      paymentMethod = field body ''paymentMethod'',
      status = JStr ''completed''\<rparr>"

text \<open>The body of the handler's \<^verbatim>\<open>try\<close>: what it returns or throws, and the tables after.\<close>

definition commitSale ::
  "env \<Rightarrow> clock \<Rightarrow> user \<Rightarrow> (string \<times> json) list \<Rightarrow> store \<Rightarrow> (error + sale_view) \<times> store" where
  "commitSale e clk usr body st =
     (let saleData = saleCandidate clk usr body in
      if \<not> insertSaleSchema saleData then (Inl ZodError, st)
      else
        (case createSale e clk saleData st of
           (Inl err, st1) \<Rightarrow> (Inl err, st1)
         | (Inr newSale, st1) \<Rightarrow>
             (case iterate (field body ''items'') of
                Inl err \<Rightarrow> (Inl err, st1)
              | Inr lines \<Rightarrow>
                  (case saleLines e (sale_id newSale) lines [] st1 of
                     (Inl err, st2) \<Rightarrow> (Inl err, st2)
                   | (Inr created, st2) \<Rightarrow>
                       (let amountReceived = field body ''amountReceived'';
                            totalAmount = field body ''totalAmount''
                        in (Inr \<lparr>view_sale = newSale, view_items = created,
                                  view_amountReceived =
                                    (if truthy amountReceived then amountReceived
                                     else totalAmount),
                                  view_change =
                                    (if truthy amountReceived
                                     then minus_js e amountReceived totalAmount
                                     else JNum 0)\<rparr>,
                            st2))))))"

definition postSales ::
  "env \<Rightarrow> clock \<Rightarrow> user \<Rightarrow> (string \<times> json) list \<Rightarrow> store \<Rightarrow> response \<times> store" where
  "postSales e clk usr body st =
     (case commitSale e clk usr body st of
        (Inr saleWithItems, st1) \<Rightarrow> (\<lparr>code = 201, payload = SaleWithItems saleWithItems\<rparr>, st1)
      | (Inl err, st1) \<Rightarrow> (internalServerError, st1))"

section \<open>POST /api/purchases (server/routes.ts)\<close>

text \<open>\<^verbatim>\<open>{...v}\<close> copies the keys of an object; a value that is not an object gives none
  of the keys read here.\<close>

definition spread :: "json \<Rightarrow> string \<Rightarrow> json" where
  "spread v k = (case v of JObj kvs \<Rightarrow> field kvs k | _ \<Rightarrow> JUndefined)"

definition purchaseCandidate :: "clock \<Rightarrow> user \<Rightarrow> json \<Rightarrow> insert_purchase" where
  "purchaseCandidate clk usr p =
     \<lparr>purchaseNumber = ''PUR-'' @ showNat (fullYear clk) @ ''-'' @ showNat (now clk),
      purchaseSupplierId = spread p ''supplierId'',
      purchaseUserId = user_id usr,
      purchaseTotalAmount = spread p ''totalAmount'',
      purchaseStatus = spread p ''status''\<rparr>"

definition purchaseItemCandidate :: "int \<Rightarrow> json \<Rightarrow> insert_purchase_item" where
  "purchaseItemCandidate pid item =
     \<lparr>purchaseId = pid,
      purchaseDrugId = spread item ''drugId'',
      purchaseQuantity = spread item ''quantity'',
      unitCost = spread item ''unitCost'',
      totalCost = spread item ''totalCost'',
      purchaseBatchNumber = spread item ''batchNumber'',
      purchaseExpiryDate = spread item ''expiryDate''\<rparr>"

fun purchaseLines :: "env \<Rightarrow> int \<Rightarrow> json list \<Rightarrow> store \<Rightarrow> (error + unit) \<times> store" where
  "purchaseLines e pid [] st = (Inr (), st)"
| "purchaseLines e pid (item # rest) st =
     (let d = purchaseItemCandidate pid item in
      if \<not> insertPurchaseItemSchema d then (Inl ZodError, st)
      else
        (case createPurchaseItem e d st of
           (Inl err, st1) \<Rightarrow> (Inl err, st1)
         | (Inr row, st1) \<Rightarrow> purchaseLines e pid rest st1))"

definition commitPurchase ::
  "env \<Rightarrow> clock \<Rightarrow> user \<Rightarrow> (string \<times> json) list \<Rightarrow> store \<Rightarrow> (error + purchase) \<times> store" where
  "commitPurchase e clk usr body st =
     (let purchaseData = purchaseCandidate clk usr (field body ''purchase'') in
      if \<not> insertPurchaseSchema purchaseData then (Inl ZodError, st)
      else
        (case createPurchase e clk purchaseData st of
           (Inl err, st1) \<Rightarrow> (Inl err, st1)
         | (Inr newPurchase, st1) \<Rightarrow>
             (case iterate (field body ''items'') of
                Inl err \<Rightarrow> (Inl err, st1)
              | Inr lines \<Rightarrow>
                  (case purchaseLines e (purchase_id newPurchase) lines st1 of
                     (Inl err, st2) \<Rightarrow> (Inl err, st2)
                   | (Inr u, st2) \<Rightarrow> (Inr newPurchase, st2)))))"

definition postPurchases ::
  "env \<Rightarrow> clock \<Rightarrow> user \<Rightarrow> (string \<times> json) list \<Rightarrow> store \<Rightarrow> response \<times> store" where
  "postPurchases e clk usr body st =
     (case commitPurchase e clk usr body st of
        (Inr newPurchase, st1) \<Rightarrow> (\<lparr>code = 201, payload = PurchaseRow newPurchase\<rparr>, st1)
      | (Inl err, st1) \<Rightarrow> (internalServerError, st1))"

section \<open>Middleware (server/routes.ts)\<close>

text \<open>\<^verbatim>\<open>s.split(c)\<close>.\<close>

fun splitOn :: "char \<Rightarrow> string \<Rightarrow> string list" where
  "splitOn c [] = [[]]"
| "splitOn c (x # xs) =
     (if x = c then [] # splitOn c xs
      else (case splitOn c xs of [] \<Rightarrow> [[x]] | w # ws \<Rightarrow> (x # w) # ws))"

definition authenticateToken :: "env \<Rightarrow> string option \<Rightarrow> response + user" where
  "authenticateToken e authHeader =
     (let token = (case authHeader of
                     None \<Rightarrow> None
                   | Some h \<Rightarrow>
                       (if h = [] then None
                        else (case splitOn CHR '' '' h of
                                a # t # ws \<Rightarrow> Some t
                              | _ \<Rightarrow> None)))
      in case token of
           None \<Rightarrow> Inl \<lparr>code = 401, payload = Message ''Access token required''\<rparr>
         | Some t \<Rightarrow>
             (if t = [] then Inl \<lparr>code = 401, payload = Message ''Access token required''\<rparr>
              else (case jwtVerify e t of
                      None \<Rightarrow> Inl \<lparr>code = 403, payload = Message ''Invalid or expired token''\<rparr>
                    | Some u \<Rightarrow> Inr u)))"

definition requireRole :: "string list \<Rightarrow> user \<Rightarrow> response option" where
  "requireRole roles u =
     (if role u \<notin> set roles
      then Some \<lparr>code = 403, payload = Message ''Insufficient permissions''\<rparr>
      else None)"

section \<open>The other routes (server/routes.ts)\<close>

definition postLogin :: "env \<Rightarrow> (string \<times> json) list \<Rightarrow> store \<Rightarrow> response \<times> store" where
  "postLogin e body st =
     caught
       (case getUserByUsername e (field body ''username'') st of
          Inl err \<Rightarrow> (Inl err, st)
        | Inr None \<Rightarrow> (Inr \<lparr>code = 401, payload = Message ''Invalid credentials''\<rparr>, st)
        | Inr (Some u) \<Rightarrow>
            (case bcryptCompare e (field body ''password'') (usr_password u) of
               None \<Rightarrow> (Inl LibraryError, st)
             | Some False \<Rightarrow> (Inr \<lparr>code = 401, payload = Message ''Invalid credentials''\<rparr>, st)
             | Some True \<Rightarrow> (Inr \<lparr>code = 200, payload = Data\<rparr>, st)))"

text \<open>
  \<^verbatim>\<open>insertUserSchema.parse\<close>: \<^verbatim>\<open>username\<close> and \<^verbatim>\<open>password\<close> are notNull
  varchar and text columns, \<^verbatim>\<open>role\<close> has a default.
\<close>

definition postRegister :: "env \<Rightarrow> (string \<times> json) list \<Rightarrow> store \<Rightarrow> response \<times> store" where
  "postRegister e body st =
     caught
       (case (field body ''username'', field body ''password'') of
          (JStr n, JStr pw) \<Rightarrow>
            (if \<not> conforms insertUserSchema body then (Inl ZodError, st)
             else
               (case getUserByUsername e (JStr n) st of
                  Inl err \<Rightarrow> (Inl err, st)
                | Inr (Some u) \<Rightarrow>
                    (Inr \<lparr>code = 409, payload = Message ''Username already exists''\<rparr>, st)
                | Inr None \<Rightarrow>
                    (case bcryptHash e (JStr pw) of
                       None \<Rightarrow> (Inl LibraryError, st)
                     | Some hashedPassword \<Rightarrow>
                         (case createUser e n hashedPassword (field body ''role'')
                                 (parsed insertUserSchema body) st of
                            (Inl err, st1) \<Rightarrow> (Inl err, st1)
                          | (Inr u, st1) \<Rightarrow> (Inr \<lparr>code = 201, payload = Data\<rparr>, st1)))))
        | _ \<Rightarrow> (Inl ZodError, st))"

text \<open>\<^verbatim>\<open>v.length\<close>.\<close>

fun jsLength :: "json \<Rightarrow> json" where
  "jsLength (JStr s) = JNum (int (length s))"
| "jsLength (JArr xs) = JNum (int (length xs))"
| "jsLength (JObj kvs) = field kvs ''length''"
| "jsLength v = JUndefined"

definition putChangePassword ::
  "env \<Rightarrow> user \<Rightarrow> (string \<times> json) list \<Rightarrow> store \<Rightarrow> response \<times> store" where
  "putChangePassword e usr body st =
     caught
       (let currentPassword = field body ''currentPassword'';
            newPassword = field body ''newPassword''
        in
          if \<not> truthy currentPassword \<or> \<not> truthy newPassword
          then (Inr \<lparr>code = 400,
                     payload = Message ''Current password and new password are required''\<rparr>, st)
          else if less_js e (jsLength newPassword) 6
          then (Inr \<lparr>code = 400,
                     payload = Message ''New password must be at least 6 characters long''\<rparr>, st)
          else
            (case getUser e (user_id usr) st of
               Inl err \<Rightarrow> (Inl err, st)
             | Inr None \<Rightarrow> (Inr \<lparr>code = 404, payload = Message ''User not found''\<rparr>, st)
             | Inr (Some u) \<Rightarrow>
                 (case bcryptCompare e currentPassword (usr_password u) of
                    None \<Rightarrow> (Inl LibraryError, st)
                  | Some False \<Rightarrow>
                      (Inr \<lparr>code = 401, payload = Message ''Current password is incorrect''\<rparr>, st)
                  | Some True \<Rightarrow>
                      (case bcryptHash e newPassword of
                         None \<Rightarrow> (Inl LibraryError, st)
                       | Some hashedNewPassword \<Rightarrow>
                           (case updateUser e (usr_id u) hashedNewPassword st of
                              (Inl err, st1) \<Rightarrow> (Inl err, st1)
                            | (Inr x, st1) \<Rightarrow>
                                (Inr \<lparr>code = 200,
                                      payload = Message ''Password changed successfully''\<rparr>,
                                 st1))))))"

text \<open>A route that runs read queries and answers with what they return.\<close>

fun getRoute :: "env \<Rightarrow> table list \<Rightarrow> store \<Rightarrow> response \<times> store" where
  "getRoute e [] st = (\<lparr>code = 200, payload = Data\<rparr>, st)"
| "getRoute e (t # ts) st =
     (case readTable e t st of
        Inl err \<Rightarrow> (internalServerError, st)
      | Inr x \<Rightarrow> getRoute e ts st)"

definition postCategories :: "env \<Rightarrow> (string \<times> json) list \<Rightarrow> store \<Rightarrow> response \<times> store" where
  "postCategories e body st =
     caught
       (if \<not> conforms insertCategorySchema body then (Inl ZodError, st)
        else
          (case createCategory e (parsed insertCategorySchema body) st of
             (Inl err, st1) \<Rightarrow> (Inl err, st1)
           | (Inr category, st1) \<Rightarrow> (Inr \<lparr>code = 201, payload = PlainRow category\<rparr>, st1)))"

definition putCategory :: "env \<Rightarrow> string \<Rightarrow> (string \<times> json) list \<Rightarrow> store \<Rightarrow> response \<times> store" where
  "putCategory e idParam body st =
     caught
       (if \<not> conforms (partial insertCategorySchema) body then (Inl ZodError, st)
        else
          (case updateCategory e (parseInt idParam) (parsed insertCategorySchema body) st of
             (Inl err, st1) \<Rightarrow> (Inl err, st1)
           | (Inr x, st1) \<Rightarrow> (Inr \<lparr>code = 200, payload = Data\<rparr>, st1)))"

definition deleteCategoryRoute :: "env \<Rightarrow> string \<Rightarrow> store \<Rightarrow> response \<times> store" where
  "deleteCategoryRoute e idParam st =
     caught
       (case deleteCategory e (parseInt idParam) st of
          (Inl err, st1) \<Rightarrow> (Inl err, st1)
        | (Inr x, st1) \<Rightarrow>
            (Inr \<lparr>code = 200, payload = Message ''Category deleted successfully''\<rparr>, st1))"

definition postSuppliers :: "env \<Rightarrow> (string \<times> json) list \<Rightarrow> store \<Rightarrow> response \<times> store" where
  "postSuppliers e body st =
     caught
       (if \<not> conforms insertSupplierSchema body then (Inl ZodError, st)
        else
          (case createSupplier e (parsed insertSupplierSchema body) st of
             (Inl err, st1) \<Rightarrow> (Inl err, st1)
           | (Inr supplier, st1) \<Rightarrow> (Inr \<lparr>code = 201, payload = PlainRow supplier\<rparr>, st1)))"

definition postCustomers :: "env \<Rightarrow> (string \<times> json) list \<Rightarrow> store \<Rightarrow> response \<times> store" where
  "postCustomers e body st =
     caught
       (if \<not> conforms insertCustomerSchema body then (Inl ZodError, st)
        else
          (case createCustomer e (parsed insertCustomerSchema body) st of
             (Inl err, st1) \<Rightarrow> (Inl err, st1)
           | (Inr customer, st1) \<Rightarrow> (Inr \<lparr>code = 201, payload = PlainRow customer\<rparr>, st1)))"

definition getDrugsSearch :: "env \<Rightarrow> string option \<Rightarrow> store \<Rightarrow> response \<times> store" where
  "getDrugsSearch e q st =
     caught
       (case q of
          None \<Rightarrow> (Inr \<lparr>code = 400, payload = Message ''Query parameter is required''\<rparr>, st)
        | Some query \<Rightarrow>
            (if query = []
             then (Inr \<lparr>code = 400, payload = Message ''Query parameter is required''\<rparr>, st)
             else
               (case searchDrugs e query st of
                  Inl err \<Rightarrow> (Inl err, st)
                | Inr found \<Rightarrow> (Inr \<lparr>code = 200, payload = DrugRows found\<rparr>, st))))"

text \<open>
  \<^verbatim>\<open>insertDrugSchema\<close>: \<^verbatim>\<open>name\<close> is a notNull varchar column and must be a
  string; \<^verbatim>\<open>generic_name\<close>, \<^verbatim>\<open>brand\<close> and \<^verbatim>\<open>barcode\<close> are nullable ones
  and may be a string, null or missing.
\<close>

fun nullableString :: "json \<Rightarrow> string option option" where
  "nullableString (JStr s) = Some (Some s)"
| "nullableString JNull = Some None"
| "nullableString JUndefined = Some None"
| "nullableString v = None"

definition parseDrug :: "(string \<times> json) list \<Rightarrow> error + insert_drug" where
  "parseDrug body =
     (case (field body ''name'', nullableString (field body ''genericName''),
            nullableString (field body ''brand''), nullableString (field body ''barcode'')) of
        (JStr n, Some g, Some b, Some c) \<Rightarrow>
          (let d = \<lparr>name = n, genericName = g, brand = b,
                    categoryId = field body ''categoryId'', dosage = field body ''dosage'',
                    form = field body ''form'', description = field body ''description'',
                    barcode = c,
                    requiresPrescription = field body ''requiresPrescription'',
                    isActive = field body ''isActive''\<rparr>
           in if insertDrugSchema d then Inr d else Inl ZodError)
      | _ \<Rightarrow> Inl ZodError)"

text \<open>\<^verbatim>\<open>insertDrugSchema.partial()\<close>: every key may also be missing.\<close>

fun optionalString :: "json \<Rightarrow> string option option" where
  "optionalString (JStr s) = Some (Some s)"
| "optionalString JUndefined = Some None"
| "optionalString v = None"

fun optionalNullableString :: "json \<Rightarrow> string option option option" where
  "optionalNullableString (JStr s) = Some (Some (Some s))"
| "optionalNullableString JNull = Some (Some None)"
| "optionalNullableString JUndefined = Some None"
| "optionalNullableString v = None"

definition parseDrugPatch :: "(string \<times> json) list \<Rightarrow> error + drug_patch" where
  "parseDrugPatch body =
     (case (optionalString (field body ''name''),
            optionalNullableString (field body ''genericName''),
            optionalNullableString (field body ''brand''),
            optionalNullableString (field body ''barcode'')) of
        (Some n, Some g, Some b, Some c) \<Rightarrow>
          (let p = \<lparr>set_name = n, set_genericName = g, set_brand = b,
                    set_categoryId = field body ''categoryId'',
                    set_dosage = field body ''dosage'', set_form = field body ''form'',
                    set_description = field body ''description'', set_barcode = c,
                    set_requiresPrescription = field body ''requiresPrescription'',
                    set_isActive = field body ''isActive''\<rparr>
           in if partialDrugSchema p then Inr p else Inl ZodError)
      | _ \<Rightarrow> Inl ZodError)"

definition postDrugs :: "env \<Rightarrow> (string \<times> json) list \<Rightarrow> store \<Rightarrow> response \<times> store" where
  "postDrugs e body st =
     caught
       (case parseDrug body of
          Inl err \<Rightarrow> (Inl err, st)
        | Inr drugData \<Rightarrow>
            (case createDrug e drugData st of
               (Inl err, st1) \<Rightarrow> (Inl err, st1)
             | (Inr d, st1) \<Rightarrow> (Inr \<lparr>code = 201, payload = DrugRow (Some d)\<rparr>, st1)))"

definition putDrug :: "env \<Rightarrow> string \<Rightarrow> (string \<times> json) list \<Rightarrow> store \<Rightarrow> response \<times> store" where
  "putDrug e idParam body st =
     caught
       (case parseDrugPatch body of
          Inl err \<Rightarrow> (Inl err, st)
        | Inr drugData \<Rightarrow>
            (case updateDrug e (parseInt idParam) drugData st of
               (Inl err, st1) \<Rightarrow> (Inl err, st1)
             | (Inr d, st1) \<Rightarrow> (Inr \<lparr>code = 200, payload = DrugRow d\<rparr>, st1)))"

definition deleteDrugRoute :: "env \<Rightarrow> string \<Rightarrow> store \<Rightarrow> response \<times> store" where
  "deleteDrugRoute e idParam st =
     caught
       (case deleteDrug e (parseInt idParam) st of
          (Inl err, st1) \<Rightarrow> (Inl err, st1)
        | (Inr x, st1) \<Rightarrow> (Inr \<lparr>code = 204, payload = NoContent\<rparr>, st1))"

text \<open>
  \<^verbatim>\<open>insertDrugBatchSchema\<close>: \<^verbatim>\<open>drug_id\<close> and \<^verbatim>\<open>quantity\<close> are notNull integer
  columns and must be numbers.
\<close>

definition parseDrugBatch :: "(string \<times> json) list \<Rightarrow> error + insert_drug_batch" where
  "parseDrugBatch body =
     (case (field body ''drugId'', field body ''quantity'') of
        (JNum d, JNum q) \<Rightarrow>
          (let b = \<lparr>drugId = d, batchNumber = field body ''batchNumber'',
                    expiryDate = field body ''expiryDate'', quantity = q,
                    costPrice = field body ''costPrice'',
                    sellingPrice = field body ''sellingPrice'',
                    supplierId = field body ''supplierId''\<rparr>
           in if insertDrugBatchSchema b then Inr b else Inl ZodError)
      | _ \<Rightarrow> Inl ZodError)"

definition postDrugBatches ::
  "env \<Rightarrow> clock \<Rightarrow> (string \<times> json) list \<Rightarrow> store \<Rightarrow> response \<times> store" where
  "postDrugBatches e clk body st =
     caught
       (case parseDrugBatch body of
          Inl err \<Rightarrow> (Inl err, st)
        | Inr batchData \<Rightarrow>
            (case createDrugBatch e clk batchData st of
               (Inl err, st1) \<Rightarrow> (Inl err, st1)
             | (Inr b, st1) \<Rightarrow> (Inr \<lparr>code = 201, payload = DrugBatchRow b\<rparr>, st1)))"

definition putSetting :: "env \<Rightarrow> string \<Rightarrow> (string \<times> json) list \<Rightarrow> store \<Rightarrow> response \<times> store" where
  "putSetting e k body st =
     caught
       (case setSetting e k (field body ''value'') st of
          (Inl err, st1) \<Rightarrow> (Inl err, st1)
        | (Inr x, st1) \<Rightarrow> (Inr \<lparr>code = 200, payload = Data\<rparr>, st1))"

text \<open>
  POST /api/init-test-data inserts fixed rows, each insert in a \<^verbatim>\<open>try\<close> of its own
  whose \<^verbatim>\<open>catch\<close> is empty. The rows go to the storage layer as they are, through no
  schema. A price is a number there and is written as the text the database is sent for it,
  a \<^verbatim>\<open>Date\<close> as its day.
\<close>

definition testCategories :: "(string \<times> json) list list" where
  "testCategories =
     [[(''name'', JStr ''Antibiotics''), (''description'', JStr ''Antimicrobial drugs'')],
      [(''name'', JStr ''Painkillers''), (''description'', JStr ''Pain relief medications'')],
      [(''name'', JStr ''Vitamins''), (''description'', JStr ''Vitamin supplements'')]]"

definition testSuppliers :: "(string \<times> json) list list" where
  "testSuppliers =
     [[(''name'', JStr ''MediCorp''), (''contactPerson'', JStr ''John Smith''),
       (''phone'', JStr ''555-0101''), (''email'', JStr ''john@medicorp.com'')],
      [(''name'', JStr ''PharmaSupply''), (''contactPerson'', JStr ''Jane Doe''),
       (''phone'', JStr ''555-0102''), (''email'', JStr ''jane@pharmasupply.com'')]]"

definition testDrug :: "string \<Rightarrow> string \<Rightarrow> string \<Rightarrow> string \<Rightarrow> int \<Rightarrow> insert_drug" where
  "testDrug n g ds f c =
     \<lparr>name = n, genericName = Some g, brand = None, categoryId = JNum c,
      dosage = JStr ds, form = JStr f, description = JUndefined, barcode = None,
      requiresPrescription = JUndefined, isActive = JUndefined\<rparr>"

definition testDrugs :: "insert_drug list" where
  "testDrugs =
     [testDrug ''Amoxicillin'' ''Amoxicillin'' ''500mg'' ''Capsules'' 1,
      testDrug ''Paracetamol'' ''Acetaminophen'' ''500mg'' ''Tablets'' 2,
      testDrug ''Vitamin C'' ''Ascorbic Acid'' ''1000mg'' ''Tablets'' 3,
      testDrug ''Ibuprofen'' ''Ibuprofen'' ''400mg'' ''Tablets'' 2]"

definition testBatch ::
  "int \<Rightarrow> string \<Rightarrow> string \<Rightarrow> int \<Rightarrow> string \<Rightarrow> string \<Rightarrow> int \<Rightarrow> insert_drug_batch" where
  "testBatch d bn ex q cp sp supplier =
     \<lparr>drugId = d, batchNumber = JStr bn, expiryDate = JStr ex, quantity = q,
      costPrice = JStr cp, sellingPrice = JStr sp, supplierId = JNum supplier\<rparr>"

definition testBatches :: "insert_drug_batch list" where
  "testBatches =
     [testBatch 1 ''AMX001'' ''2025-12-31'' 100 ''8.5'' ''12'' 1,
      testBatch 2 ''PAR001'' ''2025-11-30'' 150 ''3.25'' ''5.5'' 1,
      testBatch 3 ''VIT001'' ''2026-01-31'' 75 ''15'' ''22.5'' 2,
      testBatch 4 ''IBU001'' ''2025-10-31'' 200 ''4.75'' ''8'' 2]"

text \<open>A loop of inserts whose errors are swallowed: the tables after each call.\<close>

definition each :: "('a \<Rightarrow> store \<Rightarrow> 'b \<times> store) \<Rightarrow> 'a list \<Rightarrow> store \<Rightarrow> store" where
  "each create xs st = fold (\<lambda>x s. snd (create x s)) xs st"

definition postInitTestData :: "env \<Rightarrow> clock \<Rightarrow> store \<Rightarrow> response \<times> store" where
  "postInitTestData e clk st =
     (let st1 = each (createCategory e) testCategories st;
          st2 = each (createSupplier e) testSuppliers st1;
          st3 = each (createDrug e) testDrugs st2;
          st4 = each (createDrugBatch e clk) testBatches st3
      in (\<lparr>code = 200, payload = Message ''Test data initialized successfully''\<rparr>, st4))"

section \<open>The registered routes\<close>

datatype route =
    PostLogin | PostRegister | PutChangePassword
  | GetDashboardStats | GetRecentSales | GetAlerts
  | GetCategories | PostCategories | PutCategory | DeleteCategory
  | GetSuppliers | PostSuppliers
  | GetCustomers | PostCustomers
  | GetDrugs | GetDrugsSearch | PostDrugs | PutDrug | DeleteDrug
  | GetDrugBatches | PostDrugBatches
  | GetSales | PostSales
  | GetPurchases | PostPurchases
  | GetSettings | PostInitTestData | PutSetting

record request =
  route :: route
  authorization :: "string option"
  param :: string
  query :: "string option"
  body :: "(string \<times> json) list"

text \<open>
  \<^verbatim>\<open>app.METHOD(path, authenticateToken, requireRole(roles), handler)\<close>: the handler
  runs once both middlewares have let the request through.
\<close>

definition behind ::
  "env \<Rightarrow> string list option \<Rightarrow> request \<Rightarrow> store \<Rightarrow> (user \<Rightarrow> response \<times> store) \<Rightarrow> response \<times> store" where
  "behind e roles req st handler =
     (case authenticateToken e (authorization req) of
        Inl resp \<Rightarrow> (resp, st)
      | Inr u \<Rightarrow>
          (case roles of
             None \<Rightarrow> handler u
           | Some rs \<Rightarrow> (case requireRole rs u of Some resp \<Rightarrow> (resp, st) | None \<Rightarrow> handler u)))"

definition registerRoutes :: "env \<Rightarrow> clock \<Rightarrow> request \<Rightarrow> store \<Rightarrow> response \<times> store" where
  "registerRoutes e clk req st =
     (case route req of
        PostLogin \<Rightarrow> postLogin e (body req) st
      | PostRegister \<Rightarrow> postRegister e (body req) st
      | PutChangePassword \<Rightarrow>
          behind e None req st (\<lambda>u. putChangePassword e u (body req) st)
      | GetDashboardStats \<Rightarrow>
          behind e None req st
            (\<lambda>u. getRoute e [Sales, DrugBatches, DrugBatches, DrugBatches] st)
      | GetRecentSales \<Rightarrow> behind e None req st (\<lambda>u. getRoute e [Sales] st)
      | GetAlerts \<Rightarrow> behind e None req st (\<lambda>u. getRoute e [DrugBatches, DrugBatches] st)
      | GetCategories \<Rightarrow> behind e None req st (\<lambda>u. getRoute e [Categories] st)
      | PostCategories \<Rightarrow>
          behind e (Some [''admin'']) req st (\<lambda>u. postCategories e (body req) st)
      | PutCategory \<Rightarrow>
          behind e (Some [''admin'']) req st (\<lambda>u. putCategory e (param req) (body req) st)
      | DeleteCategory \<Rightarrow>
          behind e (Some [''admin'']) req st (\<lambda>u. deleteCategoryRoute e (param req) st)
      | GetSuppliers \<Rightarrow> behind e None req st (\<lambda>u. getRoute e [Suppliers] st)
      | PostSuppliers \<Rightarrow>
          behind e (Some [''admin'', ''pharmacist'']) req st
            (\<lambda>u. postSuppliers e (body req) st)
      | GetCustomers \<Rightarrow> behind e None req st (\<lambda>u. getRoute e [Customers] st)
      | PostCustomers \<Rightarrow> behind e None req st (\<lambda>u. postCustomers e (body req) st)
      | GetDrugs \<Rightarrow> behind e None req st (\<lambda>u. getRoute e [Drugs] st)
      | GetDrugsSearch \<Rightarrow> behind e None req st (\<lambda>u. getDrugsSearch e (query req) st)
      | PostDrugs \<Rightarrow>
          behind e (Some [''admin'', ''pharmacist'']) req st (\<lambda>u. postDrugs e (body req) st)
      | PutDrug \<Rightarrow>
          behind e (Some [''admin'', ''pharmacist'']) req st
            (\<lambda>u. putDrug e (param req) (body req) st)
      | DeleteDrug \<Rightarrow>
          behind e (Some [''admin'']) req st (\<lambda>u. deleteDrugRoute e (param req) st)
      | GetDrugBatches \<Rightarrow> behind e None req st (\<lambda>u. getRoute e [DrugBatches] st)
      | PostDrugBatches \<Rightarrow>
          behind e (Some [''admin'', ''pharmacist'']) req st
            (\<lambda>u. postDrugBatches e clk (body req) st)
      | GetSales \<Rightarrow> behind e None req st (\<lambda>u. getRoute e [Sales] st)
      | PostSales \<Rightarrow> behind e None req st (\<lambda>u. postSales e clk u (body req) st)
      | GetPurchases \<Rightarrow> behind e None req st (\<lambda>u. getRoute e [Purchases] st)
      | PostPurchases \<Rightarrow>
          behind e (Some [''admin'', ''pharmacist'']) req st
            (\<lambda>u. postPurchases e clk u (body req) st)
      | GetSettings \<Rightarrow> behind e (Some [''admin'']) req st (\<lambda>u. getRoute e [Settings] st)
      | PostInitTestData \<Rightarrow>
          behind e (Some [''admin'']) req st (\<lambda>u. postInitTestData e clk st)
      | PutSetting \<Rightarrow>
          behind e (Some [''admin'']) req st (\<lambda>u. putSetting e (param req) (body req) st))"

section \<open>Notions the properties are stated with\<close>

text \<open>The cart of a request: the lines the loop of POST /api/sales runs over.\<close>

definition cartLines :: "(string \<times> json) list \<Rightarrow> json list" where
  "cartLines b = (case iterate (field b ''items'') of Inr ls \<Rightarrow> ls | Inl err \<Rightarrow> [])"

text \<open>The batch a cart line references and the quantity it asks for.\<close>

definition lineBatch :: "json \<Rightarrow> int option" where
  "lineBatch item =
     (case getProp item ''drugBatchId'' of Inr (JNum b) \<Rightarrow> Some b | _ \<Rightarrow> None)"

definition lineQuantity :: "json \<Rightarrow> int" where
  "lineQuantity item = (case getProp item ''quantity'' of Inr (JNum q) \<Rightarrow> q | _ \<Rightarrow> 0)"

text \<open>
  The fields of the sale header that the handler takes from the request, each with the
  shape the sale schema asks of it.
\<close>

definition headerFieldsValid :: "(string \<times> json) list \<Rightarrow> bool" where
  "headerFieldsValid b =
     (nullish (ZVarchar 255) (field b ''customerName'')
      \<and> nullish (ZVarchar 20) (field b ''customerPhone'')
      \<and> required ZString (field b ''subtotal'')
      \<and> required ZString (field b ''taxAmount'')
      \<and> required ZString (field b ''totalAmount'')
      \<and> required (ZVarchar 20) (field b ''paymentMethod''))"

text \<open>
  A cart line that the sale item schema accepts. Whether it does, does not depend on the id
  of the sale, for which 0 stands here.
\<close>

definition lineValid :: "json \<Rightarrow> bool" where
  "lineValid item = (\<not> isl (lineData 0 item))"

text \<open>
  A cart as the specification asks for it: not empty, and every line references a batch of
  the table and asks for a positive number of units.
\<close>

definition lineAcceptable :: "store \<Rightarrow> json \<Rightarrow> bool" where
  "lineAcceptable st item =
     (case lineBatch item of
        None \<Rightarrow> False
      | Some i \<Rightarrow> i \<in> set (map batch_id (drugBatches st)) \<and> 0 < lineQuantity item)"

definition cartAcceptable :: "store \<Rightarrow> (string \<times> json) list \<Rightarrow> bool" where
  "cartAcceptable st b = (cartLines b \<noteq> [] \<and> list_all (lineAcceptable st) (cartLines b))"

text \<open>The quantity of the batch with id \<open>b\<close>, if the table has one.\<close>

definition batchQuantity :: "store \<Rightarrow> int \<Rightarrow> int option" where
  "batchQuantity st b = map_option quantity (find (\<lambda>r. batch_id r = b) (drugBatches st))"

text \<open>No batch of the table holds a negative quantity.\<close>

definition noNegativeQuantity :: "store \<Rightarrow> bool" where
  "noNegativeQuantity st = list_all (\<lambda>r. 0 \<le> quantity r) (drugBatches st)"

text \<open>A batch row with its quantity blanked: what a change of quantity alone leaves as it is.\<close>

definition withoutQuantity :: "drug_batch \<Rightarrow> drug_batch" where
  "withoutQuantity r = r\<lparr>quantity := 0\<rparr>"

text \<open>The amount received and the change that a response reports, when it is the view of a sale.\<close>

definition reportedReceived :: "response \<Rightarrow> json option" where
  "reportedReceived r =
     (case payload r of SaleWithItems v \<Rightarrow> Some (view_amountReceived v) | _ \<Rightarrow> None)"

definition reportedChange :: "response \<Rightarrow> json option" where
  "reportedChange r =
     (case payload r of SaleWithItems v \<Rightarrow> Some (view_change v) | _ \<Rightarrow> None)"

text \<open>A query with none of the characters that \<^verbatim>\<open>LIKE\<close> reads as part of a pattern.\<close>

definition plainQuery :: "string \<Rightarrow> bool" where
  "plainQuery q = (\<forall>c \<in> set q. c \<noteq> CHR ''%'' \<and> c \<noteq> CHR ''_'' \<and> c \<noteq> CHR 0x5C)"

text \<open>The query occurs, as it is written, in a column that is not null.\<close>

definition contains :: "string \<Rightarrow> string option \<Rightarrow> bool" where
  "contains q col = (case col of None \<Rightarrow> False | Some s \<Rightarrow> sublist q s)"

text \<open>
  The match as the specification words it: the query, compared without regard to the case
  of ASCII letters, occurs somewhere in the name, the generic name, the brand or the
  barcode.
\<close>

definition lower :: "char \<Rightarrow> char" where
  "lower c =
     (case map_of (zip ''ABCDEFGHIJKLMNOPQRSTUVWXYZ'' ''abcdefghijklmnopqrstuvwxyz'') c of
        None \<Rightarrow> c
      | Some l \<Rightarrow> l)"

definition containsIgnoringCase :: "string \<Rightarrow> string \<Rightarrow> bool" where
  "containsIgnoringCase q s = sublist (map lower q) (map lower s)"

definition claimedMatch :: "string \<Rightarrow> drug \<Rightarrow> bool" where
  "claimedMatch q d =
     (containsIgnoringCase q (name d)
      \<or> (case genericName d of None \<Rightarrow> False | Some s \<Rightarrow> containsIgnoringCase q s)
      \<or> (case brand d of None \<Rightarrow> False | Some s \<Rightarrow> containsIgnoringCase q s)
      \<or> (case barcode d of None \<Rightarrow> False | Some s \<Rightarrow> containsIgnoringCase q s))"

section \<open>A pharmacy to evaluate the handlers on\<close>

text \<open>
  The text a \<^verbatim>\<open>decimal(10, 2)\<close> column keeps for an amount that is written with
  at most two decimals.
\<close>

definition twoPlaces :: "json \<Rightarrow> json" where
  "twoPlaces v =
     (case v of
        JStr s \<Rightarrow>
          (case splitOn CHR ''.'' s of
             [] \<Rightarrow> v
           | [w] \<Rightarrow> JStr (w @ ''.00'')
           | w # f # r \<Rightarrow> JStr (w @ ''.'' @ take 2 (f @ ''00'')))
      | _ \<Rightarrow> v)"

text \<open>
  An environment in which the database throws for nothing but the constraints the tables
  declare, a number is compared with a varchar column as its digits, the token
  \<^verbatim>\<open>t-amina\<close> is a cashier's and \<^verbatim>\<open>t-root\<close> an admin's.
\<close>

definition plainEnv :: env where
  "plainEnv =
     \<lparr>storageFails = (\<lambda>st c. False),
      numeric = twoPlaces,
      boundText = (\<lambda>v. case v of JNum n \<Rightarrow> (if 0 \<le> n then Some (showNat (nat n)) else None)
                               | _ \<Rightarrow> None),
      minusCoerced = (\<lambda>a b. JUndefined),
      lessCoerced = (\<lambda>a n. False),
      jwtVerify =
        (\<lambda>t. if t = ''t-amina'' then Some \<lparr>user_id = 7, username = ''amina'', role = ''cashier''\<rparr>
              else if t = ''t-root'' then Some \<lparr>user_id = 1, username = ''root'', role = ''admin''\<rparr>
              else None),
      bcryptCompare = (\<lambda>pw h. case pw of JStr s \<Rightarrow> Some (''#'' @ s = h) | _ \<Rightarrow> None),
      bcryptHash = (\<lambda>pw. case pw of JStr s \<Rightarrow> Some (''#'' @ s) | _ \<Rightarrow> None)\<rparr>"

definition emptyStore :: store where
  "emptyStore =
     \<lparr>users = [], categories = [], suppliers = [], customers = [], drugs = [],
      drugBatches = [], sales = [], saleItems = [], purchases = [], purchaseItems = [],
      settings = [], nextUserId = 1, nextCategoryId = 1, nextSupplierId = 1,
      nextCustomerId = 1, nextDrugId = 1, nextBatchId = 1, nextSaleId = 1,
      nextSaleItemId = 1, nextPurchaseId = 1, nextPurchaseItemId = 1, nextSettingId = 1\<rparr>"

text \<open>The two users behind the tokens.\<close>

definition staff :: "user_row list" where
  "staff =
     [\<lparr>usr_id = 1, usr_username = ''root'', usr_password = ''#secret'', usr_role = ''admin'',
       usr_profile = []\<rparr>,
      \<lparr>usr_id = 7, usr_username = ''amina'', usr_password = ''#till'', usr_role = ''cashier'',
       usr_profile = []\<rparr>]"

text \<open>
  The first category, supplier, drug and batch of the test data, the batch with \<open>n\<close>
  units on hand.
\<close>

definition amoxicillin :: drug where
  "amoxicillin =
     \<lparr>name = ''Amoxicillin'', genericName = Some ''Amoxicillin'', brand = None,
      categoryId = JNum 1, dosage = JStr ''500mg'', form = JStr ''Capsules'',
      description = JNull, barcode = None, requiresPrescription = JBool False,
      isActive = JBool True, drug_id = 1\<rparr>"

definition batchAMX :: "int \<Rightarrow> drug_batch" where
  "batchAMX n =
     \<lparr>drugId = 1, batchNumber = JStr ''AMX001'', expiryDate = JStr ''2025-12-31'',
      quantity = n, costPrice = JStr ''8.50'', sellingPrice = JStr ''12.00'',
      supplierId = JNum 1, batch_id = 1, batch_createdAt = 0\<rparr>"

definition stock :: "int \<Rightarrow> store" where
  "stock n =
     emptyStore
       \<lparr>users := staff,
        categories := [(1, [(''name'', JStr ''Antibiotics''),
                            (''description'', JStr ''Antimicrobial drugs'')])],
        suppliers := [(1, [(''name'', JStr ''MediCorp''), (''contactPerson'', JStr ''John Smith''),
                           (''phone'', JStr ''555-0101''),
                           (''email'', JStr ''john@medicorp.com'')])],
        drugs := [amoxicillin],
        drugBatches := [batchAMX n],
        nextUserId := 8, nextCategoryId := 2, nextSupplierId := 2, nextDrugId := 2,
        nextBatchId := 2\<rparr>"

text \<open>A catalogue with one drug.\<close>

definition aspirin :: drug where
  "aspirin =
     \<lparr>name = ''Aspirin'', genericName = Some ''Acetylsalicylic acid'', brand = None,
      categoryId = JNum 2, dosage = JStr ''300mg'', form = JStr ''Tablets'',
      description = JNull, barcode = None, requiresPrescription = JBool False,
      isActive = JBool True, drug_id = 1\<rparr>"

definition shelf :: store where
  "shelf =
     emptyStore
       \<lparr>categories := [(1, [(''name'', JStr ''Antibiotics'')]),
                        (2, [(''name'', JStr ''Painkillers'')])],
        drugs := [aspirin], nextCategoryId := 3, nextDrugId := 2\<rparr>"

text \<open>
  A cart line for \<open>q\<close> units of batch \<open>b\<close> at 12.00 a unit, and a request body; the
  amounts are strings, as the schemas ask of decimal columns.
\<close>

definition cartLine :: "int \<Rightarrow> int \<Rightarrow> string \<Rightarrow> json" where
  "cartLine b q amount =
     JObj [(''drugBatchId'', JNum b), (''quantity'', JNum q),
           (''unitPrice'', JStr ''12.00''), (''totalPrice'', JStr amount)]"

definition saleBody :: "json \<Rightarrow> string \<Rightarrow> json \<Rightarrow> (string \<times> json) list" where
  "saleBody cart amount received =
     [(''items'', cart), (''subtotal'', JStr amount), (''taxAmount'', JStr ''0.00''),
      (''totalAmount'', JStr amount), (''paymentMethod'', JStr ''cash''),
      (''amountReceived'', received)]"

definition cashier :: user where
  "cashier = \<lparr>user_id = 7, username = ''amina'', role = ''cashier''\<rparr>"

definition noon :: clock where
  "noon = \<lparr>fullYear = 2025, now = 1750000000000\<rparr>"

text \<open>
  The tables once a sale header is there: the insert of the storage layer, with the discount
  left to the default of the column.
\<close>

definition openSale :: store where
  "openSale =
     snd (createSale plainEnv noon
            ((saleCandidate noon cashier (saleBody (JArr []) ''24.00'' JUndefined))
               \<lparr>discountAmount := JUndefined\<rparr>)
            (stock 100))"

text \<open>
  A purchase of fifty units of drug 1 in batch AMX001, a purchase with no items, and a
  request with the admin's token.
\<close>

definition purchaseHeader :: json where
  "purchaseHeader = JObj [(''supplierId'', JNum 1), (''totalAmount'', JStr ''425.00'')]"

definition purchaseBody :: "(string \<times> json) list" where
  "purchaseBody =
     [(''purchase'', purchaseHeader),
      (''items'',
       JArr [JObj [(''drugId'', JNum 1), (''quantity'', JNum 50), (''unitCost'', JStr ''8.50''),
                   (''totalCost'', JStr ''425.00''), (''batchNumber'', JStr ''AMX001''),
                   (''expiryDate'', JStr ''2025-12-31'')]])]"

definition emptyPurchaseBody :: "(string \<times> json) list" where
  "emptyPurchaseBody = [(''purchase'', purchaseHeader), (''items'', JArr [])]"

definition asRoot :: "route \<Rightarrow> (string \<times> json) list \<Rightarrow> request" where
  "asRoot r b =
     \<lparr>route = r, authorization = Some ''Bearer t-root'', param = [], query = None, body = b\<rparr>"

section \<open>Lemmas about the schemas, the storage layer and the sale loop\<close>

lemmas eval_defs = postSales_def commitSale_def saleCandidate_def createSale_def
  createSaleItem_def getDrugBatch_def updateDrugBatch_def saleLine_def lineData_def
  parseSaleItem_def insertSaleSchema_def insertSaleItemSchema_def required_def nullish_def
  missingOr_def rejects_def violates_def int32_def plainEnv_def emptyStore_def stock_def
  staff_def amoxicillin_def cartLine_def saleBody_def cashier_def noon_def batchAMX_def
  field_def apply_patch_def only_quantity_def batchQuantity_def internalServerError_def
  cartLines_def lineBatch_def lineQuantity_def lineValid_def lineAcceptable_def
  cartAcceptable_def headerFieldsValid_def noNegativeQuantity_def reportedReceived_def
  reportedChange_def twoPlaces_def Let_def

lemma showNat_noon: "length (showNat 2025) = 4" "length (showNat 1750000000000) = 13"
  by (simp_all add: showNat.simps)

text \<open>The number literal the handler writes for the discount is no string.\<close>

lemma saleCandidate_refused: "\<not> insertSaleSchema (saleCandidate clk usr b)"
  by (simp add: insertSaleSchema_def saleCandidate_def nullish_def)

lemma commitSale_refused: "commitSale e clk usr b st = (Inl ZodError, st)"
  using saleCandidate_refused [of clk usr b] by (simp add: commitSale_def Let_def)

lemma postSales_refused: "postSales e clk usr b st = (internalServerError, st)"
  by (simp add: postSales_def commitSale_refused)

lemma batch_id_apply_patch [simp]: "batch_id (apply_patch p b) = batch_id b"
  by (simp add: apply_patch_def)

lemma lineData_Inr:
  "lineData sid item = Inr d \<Longrightarrow>
     lineBatch item = Some (drugBatchId d) \<and> lineQuantity item = itemQuantity d
     \<and> saleId d = sid \<and> insertSaleItemSchema d"
  by (auto simp: lineData_def parseSaleItem_def lineBatch_def lineQuantity_def Let_def
           split: sum.splits json.splits if_splits)

lemma createSaleItem_batches:
  "createSaleItem e d st = (r, st1) \<Longrightarrow> drugBatches st1 = drugBatches st"
  by (auto simp: createSaleItem_def Let_def split: if_splits)

lemma createSaleItem_missing:
  "drugBatchId d \<notin> set (map batch_id (drugBatches st)) \<Longrightarrow>
     createSaleItem e d st = (Inl DbError, st)"
  by (simp add: createSaleItem_def rejects_def violates_def)

lemma saleLine_missing:
  assumes "lineBatch item = Some i" and "i \<notin> set (map batch_id (drugBatches st))"
  shows "\<exists>err. saleLine e sid item st = (Inl err, st)"
proof (cases "lineData sid item")
  case (Inl err)
  then show ?thesis by (simp add: saleLine_def)
next
  case (Inr d)
  with lineData_Inr [OF Inr] assms have "drugBatchId d \<notin> set (map batch_id (drugBatches st))"
    by simp
  from createSaleItem_missing [OF this] Inr show ?thesis by (simp add: saleLine_def)
qed

lemma updateDrugBatch_withoutQuantity:
  "map withoutQuantity (drugBatches (snd (updateDrugBatch e i (only_quantity n) st)))
     = map withoutQuantity (drugBatches st)"
  by (auto simp: updateDrugBatch_def withoutQuantity_def apply_patch_def only_quantity_def Let_def)

lemma saleLine_withoutQuantity:
  "map withoutQuantity (drugBatches (snd (saleLine e sid item st)))
     = map withoutQuantity (drugBatches st)"
proof (cases "lineData sid item")
  case (Inl err)
  then show ?thesis by (simp add: saleLine_def)
next
  case (Inr d)
  obtain r st1 where p: "createSaleItem e d st = (r, st1)" by fastforce
  from createSaleItem_batches [OF p] have b1: "drugBatches st1 = drugBatches st" .
  show ?thesis
  proof (cases r)
    case (Inl err)
    with Inr p b1 show ?thesis by (simp add: saleLine_def)
  next
    case row: (Inr row)
    show ?thesis
    proof (cases "getDrugBatch e (drugBatchId d) st1")
      case (Inl err)
      with Inr p row b1 show ?thesis by (simp add: saleLine_def)
    next
      case g: (Inr g)
      show ?thesis
      proof (cases g)
        case None
        with Inr p row g b1 show ?thesis by (simp add: saleLine_def)
      next
        case (Some batch)
        let ?u = "updateDrugBatch e (drugBatchId d)
                    (only_quantity (quantity batch - itemQuantity d)) st1"
        have "snd (saleLine e sid item st) = snd ?u"
          using Inr p row g Some by (auto simp: saleLine_def split: prod.splits sum.splits)
        with updateDrugBatch_withoutQuantity [of e "drugBatchId d" _ st1] b1 show ?thesis
          by simp
      qed
    qed
  qed
qed

lemma batch_ids_withoutQuantity:
  assumes "map withoutQuantity xs = map withoutQuantity ys"
  shows "map batch_id xs = map batch_id ys"
proof -
  have "map batch_id zs = map batch_id (map withoutQuantity zs)" for zs
    by (simp add: withoutQuantity_def comp_def)
  with assms show ?thesis by metis
qed

lemma saleLines_missing:
  assumes "item \<in> set ls" and "lineBatch item = Some i"
    and "i \<notin> set (map batch_id (drugBatches st))"
  shows "isl (fst (saleLines e sid ls acc st))"
  using assms
proof (induction ls arbitrary: acc st)
  case Nil
  then show ?case by simp
next
  case (Cons x rest)
  obtain r st1 where p: "saleLine e sid x st = (r, st1)" by fastforce
  show ?case
  proof (cases r)
    case (Inl err)
    with p show ?thesis by simp
  next
    case (Inr row)
    have "x \<noteq> item"
    proof
      assume eq: "x = item"
      from saleLine_missing [OF Cons.prems(2,3), of e sid]
      obtain err where "saleLine e sid item st = (Inl err, st)" by blast
      with p Inr eq show False by simp
    qed
    with Cons.prems(1) have m: "item \<in> set rest" by simp
    from saleLine_withoutQuantity [of e sid x st] p
    have "map withoutQuantity (drugBatches st1) = map withoutQuantity (drugBatches st)"
      by simp
    then have "map batch_id (drugBatches st1) = map batch_id (drugBatches st)"
      by (rule batch_ids_withoutQuantity)
    with Cons.prems(3) have "i \<notin> set (map batch_id (drugBatches st1))" by simp
    from Cons.IH [OF m Cons.prems(2) this, of "acc @ [row]"] p Inr show ?thesis by simp
  qed
qed

section \<open>The sale commit and the inventory\<close>

text \<open>
  C1. A cart that is committed should leave each batch that one line references with its
  quantity less the line's. The handler commits no cart: it hands the number literal 0 as
  \<^verbatim>\<open>discountAmount\<close> to the sale schema, which asks a string of a decimal column, so
  the parse of the header throws before anything is written, whatever the request holds. The
  request to sell 10 units of batch 1, which holds 100, with every amount a string as the
  schemas ask, a cart that is not empty and an existing batch, is answered with status 500
  and the batch holds 100 afterwards, not 90.
\<close>

theorem valid_sale_is_refused:
  "headerFieldsValid (saleBody (JArr [cartLine 1 10 ''120.00'']) ''120.00'' JUndefined)
   \<and> list_all lineValid (cartLines (saleBody (JArr [cartLine 1 10 ''120.00'']) ''120.00'' JUndefined))
   \<and> cartAcceptable (stock 100) (saleBody (JArr [cartLine 1 10 ''120.00'']) ''120.00'' JUndefined)
   \<and> postSales plainEnv noon cashier
        (saleBody (JArr [cartLine 1 10 ''120.00'']) ''120.00'' JUndefined) (stock 100)
       = (\<lparr>code = 500, payload = Message ''Internal server error''\<rparr>, stock 100)
   \<and> batchQuantity (stock 100) 1 = Some 100
   \<and> batchQuantity (snd (postSales plainEnv noon cashier
        (saleBody (JArr [cartLine 1 10 ''120.00'']) ''120.00'' JUndefined) (stock 100))) 1
       = Some 100"
proof -
  let ?b = "saleBody (JArr [cartLine 1 10 ''120.00'']) ''120.00'' JUndefined"
  have h: "headerFieldsValid ?b" by (simp add: eval_defs)
  have l: "list_all lineValid (cartLines ?b)" by (simp add: eval_defs)
  have c: "cartAcceptable (stock 100) ?b" by (simp add: eval_defs)
  have p: "postSales plainEnv noon cashier ?b (stock 100)
             = (\<lparr>code = 500, payload = Message ''Internal server error''\<rparr>, stock 100)"
    by (simp add: eval_defs)
  have q: "batchQuantity (stock 100) 1 = Some 100" by (simp add: eval_defs)
  from h l c p q show ?thesis by simp
qed



section \<open>Validation and the writes\<close>

text \<open>
  C3. If a field of the request, of the header or of a cart line, has not the shape its
  schema asks for, the handler throws the schema's error, the caller is answered with the
  error response, and no table is written: no sale, no sale item, no batch.
\<close>

theorem invalid_shape_is_reported_and_nothing_written:
  assumes "\<not> headerFieldsValid b \<or> \<not> list_all lineValid (cartLines b)"
  shows "commitSale e clk usr b st = (Inl ZodError, st)
       \<and> postSales e clk usr b st
           = (\<lparr>code = 500, payload = Message ''Internal server error''\<rparr>, st)"
  by (simp add: postSales_refused commitSale_refused internalServerError_def)

theorem invalid_shape_is_reported_and_nothing_written_witness:
  "\<not> list_all lineValid
       (cartLines (saleBody (JArr [cartLine 1 10 ''120.00'', JObj [(''drugBatchId'', JStr ''1'')]])
          ''120.00'' JUndefined))
   \<and> postSales plainEnv noon cashier
        (saleBody (JArr [cartLine 1 10 ''120.00'', JObj [(''drugBatchId'', JStr ''1'')]])
           ''120.00'' JUndefined) (stock 100)
       = (\<lparr>code = 500, payload = Message ''Internal server error''\<rparr>, stock 100)
   \<and> \<not> headerFieldsValid [(''items'', JArr [cartLine 1 10 ''120.00'']), (''subtotal'', JNum 120)]
   \<and> postSales plainEnv noon cashier
        [(''items'', JArr [cartLine 1 10 ''120.00'']), (''subtotal'', JNum 120)] (stock 100)
       = (\<lparr>code = 500, payload = Message ''Internal server error''\<rparr>, stock 100)"
proof -
  let ?l = "saleBody (JArr [cartLine 1 10 ''120.00'', JObj [(''drugBatchId'', JStr ''1'')]])
              ''120.00'' JUndefined"
  let ?hdr = "[(''items'', JArr [cartLine 1 10 ''120.00'']), (''subtotal'', JNum 120)]"
  have l: "\<not> list_all lineValid (cartLines ?l)" by (simp add: eval_defs)
  have h: "\<not> headerFieldsValid ?hdr" by (simp add: eval_defs)
  from l have "\<not> headerFieldsValid ?l \<or> \<not> list_all lineValid (cartLines ?l)" by simp
  from invalid_shape_is_reported_and_nothing_written [OF this, of plainEnv noon cashier "stock 100"]
  have a: "postSales plainEnv noon cashier ?l (stock 100)
       = (\<lparr>code = 500, payload = Message ''Internal server error''\<rparr>, stock 100)"
    by blast
  from h have "\<not> headerFieldsValid ?hdr \<or> \<not> list_all lineValid (cartLines ?hdr)" by simp
  from invalid_shape_is_reported_and_nothing_written [OF this, of plainEnv noon cashier "stock 100"]
  have b: "postSales plainEnv noon cashier ?hdr (stock 100)
       = (\<lparr>code = 500, payload = Message ''Internal server error''\<rparr>, stock 100)"
    by blast
  from l h a b show ?thesis by blast
qed

section \<open>A cart line for a batch that does not exist\<close>

lemma openSale_eval:
  "drugBatches openSale = [batchAMX 100]" "saleItems openSale = []" "length (sales openSale) = 1"
  "map sale_id (sales openSale) = [1]"
  by (simp_all add: openSale_def eval_defs)

text \<open>
  C4. The claim that a cart line for a batch that does not exist still gets its sale item and
  that the commit succeeds fails. The request with one line for batch 9, where the table has
  batch 1 alone, is answered with status 500 and no sale item is there afterwards. Where a
  sale header is in the table, the insert of the sale item for that line is what throws.
\<close>

theorem missing_batch_counterexample:
  "lineBatch (cartLine 9 2 ''24.00'') = Some 9
   \<and> map batch_id (drugBatches (stock 100)) = [1]
   \<and> code (fst (postSales plainEnv noon cashier
        (saleBody (JArr [cartLine 9 2 ''24.00'']) ''24.00'' JUndefined) (stock 100))) = 500
   \<and> saleItems (snd (postSales plainEnv noon cashier
        (saleBody (JArr [cartLine 9 2 ''24.00'']) ''24.00'' JUndefined) (stock 100))) = []
   \<and> map sale_id (sales openSale) = [1]
   \<and> saleLine plainEnv 1 (cartLine 9 2 ''24.00'') openSale = (Inl DbError, openSale)"
proof -
  let ?b = "saleBody (JArr [cartLine 9 2 ''24.00'']) ''24.00'' JUndefined"
  have a: "lineBatch (cartLine 9 2 ''24.00'') = Some 9" by (simp add: eval_defs)
  have b: "map batch_id (drugBatches (stock 100)) = [1]" by (simp add: eval_defs)
  have c: "postSales plainEnv noon cashier ?b (stock 100) = (internalServerError, stock 100)"
    by (simp add: eval_defs)
  have d: "saleItems (stock 100) = []" by (simp add: eval_defs)
  have e: "lineData 1 (cartLine 9 2 ''24.00'')
             = Inr \<lparr>saleId = 1, drugBatchId = 9, itemQuantity = 2, unitPrice = JStr ''12.00'',
                    totalPrice = JStr ''24.00''\<rparr>"
    by (simp add: eval_defs)
  have f: "saleLine plainEnv 1 (cartLine 9 2 ''24.00'') openSale = (Inl DbError, openSale)"
    by (simp add: saleLine_def e createSaleItem_def rejects_def violates_def openSale_eval
          batchAMX_def)
  from a b c d f openSale_eval(4) show ?thesis by (simp add: internalServerError_def)
qed

text \<open>
  C4, as the code has it. A sale item references its batch by a foreign key. For a cart line
  whose batch is not in the table the turn of the loop throws, at the parse of the line or
  at the insert of the sale item, and leaves the tables as they were: no sale item is
  created and the lookup of the batch is not reached. The loop over a cart with such a line
  ends in an error, and the request is answered with status 500.
\<close>

theorem missing_batch_line_is_refused:
  assumes "item \<in> set ls" and "lineBatch item = Some i"
    and "i \<notin> set (map batch_id (drugBatches st))"
  shows "(\<exists>err. saleLine e sid item st = (Inl err, st))
       \<and> isl (fst (saleLines e sid ls acc st))
       \<and> (cartLines b = ls \<longrightarrow> code (fst (postSales e clk usr b st)) = 500)"
proof -
  from saleLine_missing [OF assms(2,3)]
  have "\<exists>err. saleLine e sid item st = (Inl err, st)" .
  moreover from saleLines_missing [OF assms]
  have "isl (fst (saleLines e sid ls acc st))" .
  moreover have "code (fst (postSales e clk usr b st)) = 500"
    by (simp add: postSales_refused internalServerError_def)
  ultimately show ?thesis by blast
qed

theorem missing_batch_line_is_refused_witness:
  "cartLine 9 2 ''24.00'' \<in> set [cartLine 1 10 ''120.00'', cartLine 9 2 ''24.00'']
   \<and> lineBatch (cartLine 9 2 ''24.00'') = Some 9
   \<and> 9 \<notin> set (map batch_id (drugBatches openSale))
   \<and> (\<exists>err. saleLine plainEnv 1 (cartLine 9 2 ''24.00'') openSale = (Inl err, openSale))
   \<and> isl (fst (saleLines plainEnv 1 [cartLine 1 10 ''120.00'', cartLine 9 2 ''24.00''] [] openSale))
   \<and> cartLines (saleBody (JArr [cartLine 1 10 ''120.00'', cartLine 9 2 ''24.00'']) ''144.00'' JUndefined)
       = [cartLine 1 10 ''120.00'', cartLine 9 2 ''24.00'']
   \<and> code (fst (postSales plainEnv noon cashier
        (saleBody (JArr [cartLine 1 10 ''120.00'', cartLine 9 2 ''24.00'']) ''144.00'' JUndefined)
        openSale)) = 500"
proof -
  let ?ls = "[cartLine 1 10 ''120.00'', cartLine 9 2 ''24.00'']"
  let ?b = "saleBody (JArr ?ls) ''144.00'' JUndefined"
  have m: "cartLine 9 2 ''24.00'' \<in> set ?ls" by simp
  have l: "lineBatch (cartLine 9 2 ''24.00'') = Some 9" by (simp add: eval_defs)
  have n: "9 \<notin> set (map batch_id (drugBatches openSale))"
    by (simp add: openSale_eval batchAMX_def)
  have c: "cartLines ?b = ?ls" by (simp add: cartLines_def saleBody_def field_def)
  from missing_batch_line_is_refused [OF m l n, of plainEnv 1 "[]" ?b noon cashier] c
  show ?thesis using m l n by blast
qed

section \<open>What the sale commit accepts\<close>

text \<open>
  C9. A request to POST /api/sales whose cart is empty, or has a line that references no
  batch of the table or asks for a quantity that is not positive, is not answered with 201:
  it is turned away with the error response, and nothing is written.
\<close>

theorem sale_succeeds_only_on_acceptable_cart:
  assumes "\<not> cartAcceptable st b"
  shows "code (fst (postSales e clk usr b st)) \<noteq> 201
       \<and> postSales e clk usr b st
           = (\<lparr>code = 500, payload = Message ''Internal server error''\<rparr>, st)"
  by (simp add: postSales_refused internalServerError_def)

theorem sale_succeeds_only_on_acceptable_cart_witness:
  "\<not> cartAcceptable (stock 100) (saleBody (JArr []) ''0.00'' JUndefined)
   \<and> postSales plainEnv noon cashier (saleBody (JArr []) ''0.00'' JUndefined) (stock 100)
       = (\<lparr>code = 500, payload = Message ''Internal server error''\<rparr>, stock 100)
   \<and> \<not> cartAcceptable (stock 100) (saleBody (JArr [cartLine 9 2 ''24.00'']) ''24.00'' JUndefined)
   \<and> postSales plainEnv noon cashier
        (saleBody (JArr [cartLine 9 2 ''24.00'']) ''24.00'' JUndefined) (stock 100)
       = (\<lparr>code = 500, payload = Message ''Internal server error''\<rparr>, stock 100)
   \<and> \<not> cartAcceptable (stock 100) (saleBody (JArr [cartLine 1 (- 2) ''24.00'']) ''24.00'' JUndefined)
   \<and> postSales plainEnv noon cashier
        (saleBody (JArr [cartLine 1 (- 2) ''24.00'']) ''24.00'' JUndefined) (stock 100)
       = (\<lparr>code = 500, payload = Message ''Internal server error''\<rparr>, stock 100)"
proof -
  let ?e = "saleBody (JArr []) ''0.00'' JUndefined"
  let ?m = "saleBody (JArr [cartLine 9 2 ''24.00'']) ''24.00'' JUndefined"
  let ?n = "saleBody (JArr [cartLine 1 (- 2) ''24.00'']) ''24.00'' JUndefined"
  have a: "\<not> cartAcceptable (stock 100) ?e" by (simp add: eval_defs)
  have b: "\<not> cartAcceptable (stock 100) ?m" by (simp add: eval_defs)
  have c: "\<not> cartAcceptable (stock 100) ?n" by (simp add: eval_defs)
  from sale_succeeds_only_on_acceptable_cart [OF a, of plainEnv noon cashier]
  have a': "postSales plainEnv noon cashier ?e (stock 100)
       = (\<lparr>code = 500, payload = Message ''Internal server error''\<rparr>, stock 100)" by blast
  from sale_succeeds_only_on_acceptable_cart [OF b, of plainEnv noon cashier]
  have b': "postSales plainEnv noon cashier ?m (stock 100)
       = (\<lparr>code = 500, payload = Message ''Internal server error''\<rparr>, stock 100)" by blast
  from sale_succeeds_only_on_acceptable_cart [OF c, of plainEnv noon cashier]
  have c': "postSales plainEnv noon cashier ?n (stock 100)
       = (\<lparr>code = 500, payload = Message ''Internal server error''\<rparr>, stock 100)" by blast
  from a a' b b' c c' show ?thesis by blast
qed

section \<open>The receipt view and the sale header\<close>

text \<open>
  C5. The response to a sale should report the amount received, the total when none is
  given, and the change. The handler sends no such report: the parse of the header throws
  on its own literal for the discount before the report is built. The request for 10 units
  at a total of 120.00, with no amount received and with 150 received, is answered with the
  error response, which carries neither an amount received nor a change.
\<close>

theorem receipt_is_not_sent:
  "fst (postSales plainEnv noon cashier
        (saleBody (JArr [cartLine 1 10 ''120.00'']) ''120.00'' JUndefined) (stock 100))
     = \<lparr>code = 500, payload = Message ''Internal server error''\<rparr>
   \<and> reportedReceived (fst (postSales plainEnv noon cashier
        (saleBody (JArr [cartLine 1 10 ''120.00'']) ''120.00'' JUndefined) (stock 100))) = None
   \<and> reportedChange (fst (postSales plainEnv noon cashier
        (saleBody (JArr [cartLine 1 10 ''120.00'']) ''120.00'' JUndefined) (stock 100))) = None
   \<and> fst (postSales plainEnv noon cashier
        (saleBody (JArr [cartLine 1 10 ''120.00'']) ''120.00'' (JNum 150)) (stock 100))
     = \<lparr>code = 500, payload = Message ''Internal server error''\<rparr>
   \<and> reportedReceived (fst (postSales plainEnv noon cashier
        (saleBody (JArr [cartLine 1 10 ''120.00'']) ''120.00'' (JNum 150)) (stock 100))) = None
   \<and> reportedChange (fst (postSales plainEnv noon cashier
        (saleBody (JArr [cartLine 1 10 ''120.00'']) ''120.00'' (JNum 150)) (stock 100))) = None"
proof -
  have "fst (postSales plainEnv noon cashier
          (saleBody (JArr [cartLine 1 10 ''120.00'']) ''120.00'' r) (stock 100))
        = \<lparr>code = 500, payload = Message ''Internal server error''\<rparr>" for r
    by (simp add: eval_defs)
  then show ?thesis by (simp add: reportedReceived_def reportedChange_def)
qed

text \<open>
  C6. The workflow should persist a sale header with status \<^verbatim>\<open>completed\<close> and a
  discount of zero. The handler persists none. The header it builds carries the number 0 as
  discount, the sale schema refuses it, and the table of sales is empty after the request as
  it was before; the same header with the string \<^verbatim>\<open>0\<close>, the default of the column,
  passes the schema.
\<close>

theorem sale_header_is_not_persisted:
  "sales (stock 100) = []
   \<and> code (fst (postSales plainEnv noon cashier
        (saleBody (JArr [cartLine 1 10 ''120.00'']) ''120.00'' JUndefined) (stock 100))) = 500
   \<and> sales (snd (postSales plainEnv noon cashier
        (saleBody (JArr [cartLine 1 10 ''120.00'']) ''120.00'' JUndefined) (stock 100))) = []
   \<and> discountAmount (saleCandidate noon cashier
        (saleBody (JArr [cartLine 1 10 ''120.00'']) ''120.00'' JUndefined)) = JNum 0
   \<and> status (saleCandidate noon cashier
        (saleBody (JArr [cartLine 1 10 ''120.00'']) ''120.00'' JUndefined)) = JStr ''completed''
   \<and> \<not> insertSaleSchema (saleCandidate noon cashier
        (saleBody (JArr [cartLine 1 10 ''120.00'']) ''120.00'' JUndefined))
   \<and> insertSaleSchema ((saleCandidate noon cashier
        (saleBody (JArr [cartLine 1 10 ''120.00'']) ''120.00'' JUndefined))
          \<lparr>discountAmount := JStr ''0''\<rparr>)"
proof -
  let ?b = "saleBody (JArr [cartLine 1 10 ''120.00'']) ''120.00'' JUndefined"
  have a: "sales (stock 100) = []" by (simp add: eval_defs)
  have p: "postSales plainEnv noon cashier ?b (stock 100) = (internalServerError, stock 100)"
    by (simp add: eval_defs)
  have d: "discountAmount (saleCandidate noon cashier ?b) = JNum 0"
    "status (saleCandidate noon cashier ?b) = JStr ''completed''"
    by (simp_all add: saleCandidate_def)
  have n: "\<not> insertSaleSchema (saleCandidate noon cashier ?b)"
    by (simp add: eval_defs)
  have y: "insertSaleSchema ((saleCandidate noon cashier ?b)\<lparr>discountAmount := JStr ''0''\<rparr>)"
    by (simp add: eval_defs showNat_noon)
  from a p d n y show ?thesis by (simp add: internalServerError_def)
qed

section \<open>Failures of the sale commit\<close>

text \<open>
  C10. Whatever the handler's \<^verbatim>\<open>try\<close> block throws, a schema's rejection, a
  TypeError or an error of the storage layer, the answer is status 500 with the message
  \<^verbatim>\<open>Internal server error\<close>; so an answer other than 201 is always this one.
  (A request the authentication middleware turns away does not reach the handler.)
\<close>

theorem sale_failure_is_500:
  "(\<forall>err. fst (commitSale e clk usr b st) = Inl err \<longrightarrow>
      fst (postSales e clk usr b st)
        = \<lparr>code = 500, payload = Message ''Internal server error''\<rparr>)
   \<and> (code (fst (postSales e clk usr b st)) \<noteq> 201 \<longrightarrow>
      fst (postSales e clk usr b st)
        = \<lparr>code = 500, payload = Message ''Internal server error''\<rparr>)"
proof (cases "commitSale e clk usr b st")
  case (Pair r st1)
  show ?thesis
  proof (cases r)
    case (Inl err)
    with Pair show ?thesis
      by (simp add: postSales_def internalServerError_def)
  next
    case (Inr saleWithItems)
    with Pair show ?thesis
      by (simp add: postSales_def)
  qed
qed

theorem sale_failure_is_500_witness:
  "fst (commitSale plainEnv noon cashier [] (stock 100)) = Inl ZodError
   \<and> fst (postSales plainEnv noon cashier [] (stock 100))
       = \<lparr>code = 500, payload = Message ''Internal server error''\<rparr>
   \<and> fst (commitSale plainEnv noon cashier
        (saleBody (JArr [cartLine 1 10 ''120.00'']) ''120.00'' JUndefined) (stock 100))
       = Inl ZodError
   \<and> code (fst (postSales plainEnv noon cashier
        (saleBody (JArr [cartLine 1 10 ''120.00'']) ''120.00'' JUndefined) (stock 100))) \<noteq> 201
   \<and> fst (postSales plainEnv noon cashier
        (saleBody (JArr [cartLine 1 10 ''120.00'']) ''120.00'' JUndefined) (stock 100))
       = \<lparr>code = 500, payload = Message ''Internal server error''\<rparr>"
proof -
  let ?b = "saleBody (JArr [cartLine 1 10 ''120.00'']) ''120.00'' JUndefined"
  have z: "fst (commitSale plainEnv noon cashier [] (stock 100)) = Inl ZodError"
    by (simp add: eval_defs)
  have d: "fst (commitSale plainEnv noon cashier ?b (stock 100)) = Inl ZodError"
    by (simp add: eval_defs)
  have c: "code (fst (postSales plainEnv noon cashier ?b (stock 100))) \<noteq> 201"
    by (simp add: eval_defs)
  from sale_failure_is_500 [of plainEnv noon cashier "[]" "stock 100"] z
  have z': "fst (postSales plainEnv noon cashier [] (stock 100))
       = \<lparr>code = 500, payload = Message ''Internal server error''\<rparr>" by blast
  from sale_failure_is_500 [of plainEnv noon cashier ?b "stock 100"] c
  have d': "fst (postSales plainEnv noon cashier ?b (stock 100))
       = \<lparr>code = 500, payload = Message ''Internal server error''\<rparr>" by blast
  from z z' d c d' show ?thesis by blast
qed

section \<open>Searching the catalogue\<close>

lemma like_plain_prefix:
  "plainQuery p \<Longrightarrow> like (p @ ps) s \<longleftrightarrow> (\<exists>r. s = p @ r \<and> like ps r)"
proof (induction p arbitrary: s)
  case Nil
  then show ?case by simp
next
  case (Cons c p)
  then have c: "c \<noteq> CHR ''%''" "c \<noteq> CHR ''_''" "c \<noteq> CHR 0x5C" and p: "plainQuery p"
    by (simp_all add: plainQuery_def)
  show ?case
  proof (cases s)
    case Nil
    with c show ?thesis by simp
  next
    case (Cons x xs)
    with c Cons.IH [OF p, of xs] show ?thesis by auto
  qed
qed

lemma like_percent: "like (CHR ''%'' # ps) s \<longleftrightarrow> (\<exists>r. suffix r s \<and> like ps r)"
proof (induction s)
  case Nil
  then show ?case by simp
next
  case (Cons x xs)
  then show ?case by (auto simp: suffix_Cons)
qed

lemma like_contains:
  assumes "plainQuery q"
  shows "like (''%'' @ q @ ''%'') s \<longleftrightarrow> sublist q s"
proof -
  have "like (''%'' @ q @ ''%'') s \<longleftrightarrow> (\<exists>r. suffix r s \<and> like (q @ ''%'') r)"
    using like_percent [of "q @ ''%''" s] by simp
  also have "\<dots> \<longleftrightarrow> (\<exists>r. suffix r s \<and> (\<exists>t. r = q @ t \<and> like ''%'' t))"
    using like_plain_prefix [OF assms, of "''%''"] by simp
  also have "\<dots> \<longleftrightarrow> (\<exists>r. suffix r s \<and> prefix q r)"
    using like_percent [of "[]"] by (auto simp: prefix_def)
  also have "\<dots> \<longleftrightarrow> sublist q s"
    by (simp add: sublist_altdef')
  finally show ?thesis .
qed

text \<open>
  C8. The claim that the search matches without regard to case fails: the query is put
  between two \<^verbatim>\<open>%\<close> and compared with \<^verbatim>\<open>LIKE\<close>, which tells upper from lower
  case. The query \<^verbatim>\<open>aspirin\<close> does not find the drug named \<^verbatim>\<open>Aspirin\<close>.
\<close>

theorem search_case_counterexample:
  "claimedMatch ''aspirin'' aspirin
   \<and> searchDrugs plainEnv ''aspirin'' shelf = Inr []"
proof -
  have "map lower ''Aspirin'' = ''aspirin''" "map lower ''aspirin'' = ''aspirin''"
    by (simp_all add: lower_def)
  then have "claimedMatch ''aspirin'' aspirin"
    by (simp add: claimedMatch_def containsIgnoringCase_def aspirin_def)
  moreover have "searchDrugs plainEnv ''aspirin'' shelf = Inr []"
    by (simp add: searchDrugs_def rejects_def violates_def plainEnv_def shelf_def
          emptyStore_def aspirin_def likeColumn_def)
  ultimately show ?thesis by simp
qed

text \<open>
  C8, as the code has it. When the database answers, the search returns, in table order,
  exactly the drugs whose name, generic name, brand or barcode matches the pattern
  \<^verbatim>\<open>%query%\<close> under \<^verbatim>\<open>LIKE\<close>, a null column never matching; for a query
  without \<^verbatim>\<open>%\<close>, \<^verbatim>\<open>_\<close> and backslash these are exactly the drugs in which the
  query occurs, letter for letter, in one of the four columns.
\<close>

theorem search_is_case_sensitive_like:
  assumes "\<not> storageFails e st (Select Drugs)"
  shows "searchDrugs e q st =
           Inr (filter (\<lambda>d. like (''%'' @ q @ ''%'') (name d)
                           \<or> likeColumn (''%'' @ q @ ''%'') (genericName d)
                           \<or> likeColumn (''%'' @ q @ ''%'') (brand d)
                           \<or> likeColumn (''%'' @ q @ ''%'') (barcode d)) (drugs st))
       \<and> (plainQuery q \<longrightarrow>
            searchDrugs e q st =
              Inr (filter (\<lambda>d. sublist q (name d) \<or> contains q (genericName d)
                              \<or> contains q (brand d) \<or> contains q (barcode d)) (drugs st)))"
proof -
  have "likeColumn (''%'' @ q @ ''%'') col = contains q col" if "plainQuery q" for col
    using like_contains [OF that] by (simp add: likeColumn_def contains_def split: option.splits)
  with like_contains [of q] assms show ?thesis
    by (simp add: searchDrugs_def rejects_def violates_def)
qed

theorem search_is_case_sensitive_like_witness:
  "\<not> storageFails plainEnv shelf (Select Drugs)
   \<and> plainQuery ''spirin''
   \<and> searchDrugs plainEnv ''spirin'' shelf = Inr [aspirin]
   \<and> sublist ''spirin'' (name aspirin)
   \<and> searchDrugs plainEnv ''ASPIRIN'' shelf = Inr []"
proof -
  have h: "\<not> storageFails plainEnv shelf (Select Drugs)"
    by (simp add: plainEnv_def)
  have p: "plainQuery ''spirin''" "plainQuery ''ASPIRIN''"
    by (simp_all add: plainQuery_def)
  have s: "sublist ''spirin'' (name aspirin)"
    by (simp add: aspirin_def sublist_Cons_right)
  have n: "\<not> sublist ''ASPIRIN'' (name aspirin)" "\<not> contains ''ASPIRIN'' (genericName aspirin)"
    "\<not> contains ''ASPIRIN'' (brand aspirin)" "\<not> contains ''ASPIRIN'' (barcode aspirin)"
    by (simp_all add: aspirin_def contains_def sublist_Cons_right)
  have d: "drugs shelf = [aspirin]"
    by (simp add: shelf_def)
  from search_is_case_sensitive_like [OF h, of "''spirin''", THEN conjunct2, rule_format, OF p(1)]
    s d
  have a: "searchDrugs plainEnv ''spirin'' shelf = Inr [aspirin]" by simp
  from search_is_case_sensitive_like [OF h, of "''ASPIRIN''", THEN conjunct2, rule_format, OF p(2)]
    n d
  have b: "searchDrugs plainEnv ''ASPIRIN'' shelf = Inr []" by simp
  from h p s a b show ?thesis by simp
qed

section \<open>Which routes change a batch\<close>

lemma snd_caught [simp]: "snd (caught r) = snd r"
  by (auto simp: caught_def split: prod.splits sum.splits)

lemma getRoute_store [simp]: "snd (getRoute e ts st) = st"
  by (induction ts) (auto split: sum.splits)

lemma postLogin_store [simp]: "snd (postLogin e b st) = st"
  by (auto simp: postLogin_def split: sum.splits option.splits bool.splits)

lemma createUser_batches:
  "createUser e n pw r p st = (x, st1) \<Longrightarrow> drugBatches st1 = drugBatches st"
  by (auto simp: createUser_def Let_def split: if_splits)

lemma postRegister_batches [simp]: "drugBatches (snd (postRegister e b st)) = drugBatches st"
  by (auto simp: postRegister_def split: json.splits sum.splits option.splits prod.splits
           dest: createUser_batches)

lemma updateUser_batches:
  "updateUser e i pw st = (x, st1) \<Longrightarrow> drugBatches st1 = drugBatches st"
  by (auto simp: updateUser_def split: if_splits)

lemma putChangePassword_batches [simp]:
  "drugBatches (snd (putChangePassword e u b st)) = drugBatches st"
  by (auto simp: putChangePassword_def Let_def
           split: sum.splits option.splits prod.splits bool.splits
           dest: updateUser_batches)

lemma createCategory_batches [simp]: "drugBatches (snd (createCategory e c st)) = drugBatches st"
  by (simp add: createCategory_def)

lemma createSupplier_batches [simp]: "drugBatches (snd (createSupplier e c st)) = drugBatches st"
  by (simp add: createSupplier_def)

lemma createCustomer_batches [simp]: "drugBatches (snd (createCustomer e c st)) = drugBatches st"
  by (simp add: createCustomer_def)

lemma createDrug_batches [simp]: "drugBatches (snd (createDrug e d st)) = drugBatches st"
  by (simp add: createDrug_def Let_def)

lemma updateCategory_batches [simp]: "drugBatches (snd (updateCategory e i c st)) = drugBatches st"
  by (simp add: updateCategory_def split: option.splits)

lemma deleteCategory_batches [simp]: "drugBatches (snd (deleteCategory e i st)) = drugBatches st"
  by (simp add: deleteCategory_def split: option.splits)

lemma updateDrug_batches [simp]: "drugBatches (snd (updateDrug e i p st)) = drugBatches st"
  by (simp add: updateDrug_def Let_def split: option.splits)

lemma deleteDrug_batches [simp]: "drugBatches (snd (deleteDrug e i st)) = drugBatches st"
  by (simp add: deleteDrug_def split: option.splits)

lemma setSetting_batches [simp]: "drugBatches (snd (setSetting e k v st)) = drugBatches st"
  by (simp add: setSetting_def)

lemma createPurchase_batches [simp]: "drugBatches (snd (createPurchase e clk p st)) = drugBatches st"
  by (simp add: createPurchase_def Let_def)

lemma createPurchaseItem_batches [simp]: "drugBatches (snd (createPurchaseItem e d st)) = drugBatches st"
  by (simp add: createPurchaseItem_def Let_def)

lemma snd_case_sum_prod:
  "snd (case p of (Inl err, s) \<Rightarrow> (Inl err, s) | (Inr x, s) \<Rightarrow> (Inr (f x), s)) = snd p"
  by (auto split: prod.splits sum.splits)

lemma postCategories_batches [simp]: "drugBatches (snd (postCategories e b st)) = drugBatches st"
  by (simp add: postCategories_def snd_case_sum_prod)

lemma putCategory_batches [simp]: "drugBatches (snd (putCategory e i b st)) = drugBatches st"
  by (simp add: putCategory_def snd_case_sum_prod)

lemma deleteCategoryRoute_batches [simp]: "drugBatches (snd (deleteCategoryRoute e i st)) = drugBatches st"
  by (simp add: deleteCategoryRoute_def snd_case_sum_prod)

lemma postSuppliers_batches [simp]: "drugBatches (snd (postSuppliers e b st)) = drugBatches st"
  by (simp add: postSuppliers_def snd_case_sum_prod)

lemma postCustomers_batches [simp]: "drugBatches (snd (postCustomers e b st)) = drugBatches st"
  by (simp add: postCustomers_def snd_case_sum_prod)

lemma getDrugsSearch_store [simp]: "snd (getDrugsSearch e q st) = st"
  by (auto simp: getDrugsSearch_def split: option.splits sum.splits)

lemma postDrugs_batches [simp]: "drugBatches (snd (postDrugs e b st)) = drugBatches st"
  by (auto simp: postDrugs_def snd_case_sum_prod split: sum.splits)

lemma putDrug_batches [simp]: "drugBatches (snd (putDrug e i b st)) = drugBatches st"
  by (auto simp: putDrug_def snd_case_sum_prod split: sum.splits)

lemma deleteDrugRoute_batches [simp]: "drugBatches (snd (deleteDrugRoute e i st)) = drugBatches st"
  by (simp add: deleteDrugRoute_def snd_case_sum_prod)

lemma putSetting_batches [simp]: "drugBatches (snd (putSetting e k b st)) = drugBatches st"
  by (simp add: putSetting_def snd_case_sum_prod)

lemma purchaseLines_batches [simp]: "drugBatches (snd (purchaseLines e pid ls st)) = drugBatches st"
proof (induction ls arbitrary: st)
  case Nil
  then show ?case by simp
next
  case (Cons item rest)
  show ?case
  proof (cases "createPurchaseItem e (purchaseItemCandidate pid item) st")
    case (Pair r st1)
    with createPurchaseItem_batches [of e "purchaseItemCandidate pid item" st]
    have "drugBatches st1 = drugBatches st" by simp
    with Pair Cons.IH [of st1] show ?thesis
      by (cases r) (simp_all add: Let_def)
  qed
qed

lemma commitPurchase_batches: "drugBatches (snd (commitPurchase e clk u b st)) = drugBatches st"
proof -
  let ?c = "purchaseCandidate clk u (field b ''purchase'')"
  obtain r st1 where p: "createPurchase e clk ?c st = (r, st1)" by fastforce
  with createPurchase_batches [of e clk ?c st] have b1: "drugBatches st1 = drugBatches st" by simp
  show ?thesis
  proof (cases r)
    case (Inl err)
    with p b1 show ?thesis by (simp add: commitPurchase_def Let_def)
  next
    case (Inr newPurchase)
    show ?thesis
    proof (cases "iterate (field b ''items'')")
      case (Inl err)
      with p Inr b1 show ?thesis by (simp add: commitPurchase_def Let_def)
    next
      case ls: (Inr ls)
      obtain r2 st2 where p2: "purchaseLines e (purchase_id newPurchase) ls st1 = (r2, st2)"
        by fastforce
      with purchaseLines_batches [of e "purchase_id newPurchase" ls st1] b1
      have "drugBatches st2 = drugBatches st" by simp
      with p Inr ls p2 show ?thesis
        by (cases r2) (simp_all add: commitPurchase_def Let_def)
    qed
  qed
qed

lemma postPurchases_batches [simp]: "drugBatches (snd (postPurchases e clk u b st)) = drugBatches st"
  using commitPurchase_batches [of e clk u b st]
  by (auto simp: postPurchases_def split: prod.splits sum.splits)

lemma createDrugBatch_prefix: "prefix (drugBatches st) (drugBatches (snd (createDrugBatch e clk b st)))"
  by (simp add: createDrugBatch_def Let_def)

lemma postDrugBatches_prefix: "prefix (drugBatches st) (drugBatches (snd (postDrugBatches e clk b st)))"
  using createDrugBatch_prefix [of st e clk]
  by (auto simp: postDrugBatches_def snd_case_sum_prod split: sum.splits)

lemma each_batches:
  assumes "\<And>x s. drugBatches (snd (f x s)) = drugBatches s"
  shows "drugBatches (each f xs st) = drugBatches st"
  unfolding each_def using assms by (induction xs arbitrary: st) simp_all

lemma each_prefix:
  assumes "\<And>x s. prefix (drugBatches s) (drugBatches (snd (f x s)))"
  shows "prefix (drugBatches st) (drugBatches (each f xs st))"
  unfolding each_def
proof (induction xs arbitrary: st)
  case Nil
  then show ?case by simp
next
  case (Cons x xs)
  from assms [of st x] Cons [of "snd (f x st)"] show ?case
    by (auto intro: prefix_order.order_trans)
qed

lemma postInitTestData_prefix:
  "prefix (drugBatches st) (drugBatches (snd (postInitTestData e clk st)))"
proof -
  have "drugBatches (each (createDrug e) testDrugs
          (each (createSupplier e) testSuppliers (each (createCategory e) testCategories st)))
        = drugBatches st"
    by (simp add: each_batches)
  with each_prefix [of "createDrugBatch e clk", OF createDrugBatch_prefix] show ?thesis
    by (simp add: postInitTestData_def Let_def) metis
qed

lemma behind_batches:
  "(\<And>u. drugBatches (snd (h u)) = drugBatches st) \<Longrightarrow>
     drugBatches (snd (behind e roles req st h)) = drugBatches st"
  by (auto simp: behind_def split: sum.splits option.splits)

lemma behind_prefix:
  "(\<And>u. prefix (drugBatches st) (drugBatches (snd (h u)))) \<Longrightarrow>
     prefix (drugBatches st) (drugBatches (snd (behind e roles req st h)))"
  by (auto simp: behind_def split: sum.splits option.splits)

lemma postSales_withoutQuantity:
  "map withoutQuantity (drugBatches (snd (postSales e clk u b st)))
     = map withoutQuantity (drugBatches st)"
  by (simp add: postSales_refused)

lemmas route_defs = registerRoutes_def asRoot_def behind_def authenticateToken_def
  requireRole_def postPurchases_def commitPurchase_def purchaseCandidate_def
  purchaseItemCandidate_def createPurchase_def createPurchaseItem_def spread_def
  purchaseBody_def emptyPurchaseBody_def purchaseHeader_def insertPurchaseSchema_def
  insertPurchaseItemSchema_def showNat_noon




end
